theory Spec2Isabelle
  imports Main "HOL-Library.AList"
begin

section \<open>The code builder: lines, indentation and import bookkeeping\<close>

text \<open>
  \<^verbatim>\<open>CodeBuilder\<close> (metaprogramming.py) collects the text of a routine line by line.
  Its mutable attributes are the record below; every method takes the builder and
  returns the updated one.
\<close>

record builder =
  lines :: "string list"
  modules :: "string set"
  globals :: "string set"
  current_indent :: string

text \<open>\<^verbatim>\<open>reset\<close>: the module set restarts from \<^verbatim>\<open>INITIAL_MODULES\<close>, a module-level
  constant computed at import time by a helper that is not part of the sources; it is a
  parameter here.\<close>

definition reset :: "string set \<Rightarrow> builder" where
  "reset INITIAL_MODULES =
     \<lparr>lines = [], modules = INITIAL_MODULES, globals = {}, current_indent = []\<rparr>"

text \<open>\<^verbatim>\<open>self.lines.append(f"{self._current_indent}{line}")\<close>\<close>

definition add_line :: "string \<Rightarrow> builder \<Rightarrow> builder" where
  "add_line line b = b\<lparr>lines := lines b @ [current_indent b @ line]\<rparr>"

text \<open>
  The context manager \<^verbatim>\<open>indent\<close>: four spaces are appended on entry, and
  \<^verbatim>\<open>self._current_indent[:-4]\<close> drops the last four characters on exit (a slice of a
  string shorter than four characters is empty).
\<close>

definition indent_enter :: "builder \<Rightarrow> builder" where
  "indent_enter b = b\<lparr>current_indent := current_indent b @ replicate 4 (CHR '' '')\<rparr>"

definition indent_exit :: "builder \<Rightarrow> builder" where
  "indent_exit b =
     b\<lparr>current_indent := take (length (current_indent b) - 4) (current_indent b)\<rparr>"

definition with_indent :: "(builder \<Rightarrow> builder) \<Rightarrow> builder \<Rightarrow> builder" where
  "with_indent body b = indent_exit (body (indent_enter b))"

text \<open>\<^verbatim>\<open>module.split(".")[0]\<close>: the text before the first dot (the whole name when it
  has none).\<close>

definition root_module :: "string \<Rightarrow> string" where
  "root_module module = takeWhile (\<lambda>c. c \<noteq> CHR ''.'') module"

definition import_guard_line :: "string \<Rightarrow> string" where
  "import_guard_line module = ''if '' @ [CHR 0x27] @ module @ [CHR 0x27] @ '' not in globals():''"

definition import_line :: "string \<Rightarrow> string" where
  "import_line module = ''import '' @ module"

definition global_line :: "string \<Rightarrow> string" where
  "global_line root = ''global '' @ root"

text \<open>
  \<^verbatim>\<open>ensure_module_imported\<close>:
  \<^verbatim>\<open>
    if module not in self.modules:
        self.modules.add(module)
        self.add_line(f"if '{module}' not in globals():")
        with self.indent():
            self.add_line(f"import {module}")
        root_module = module.split(".")[0]
        if root_module not in self.globals:
            self.globals.add(root_module)
            self.add_line("else:")
            with self.indent():
                self.add_line(f"global {root_module}")
  \<close>
\<close>

definition ensure_module_imported :: "string \<Rightarrow> builder \<Rightarrow> builder" where
  "ensure_module_imported module b =
     (if module \<in> modules b then b
      else
        let b1 = b\<lparr>modules := insert module (modules b)\<rparr>;
            b2 = add_line (import_guard_line module) b1;
            b3 = with_indent (add_line (import_line module)) b2;
            root = root_module module
        in if root \<in> globals b3 then b3
           else
             let b4 = b3\<lparr>globals := insert root (globals b3)\<rparr>;
                 b5 = add_line ''else:'' b4
             in with_indent (add_line (global_line root)) b5)"

text \<open>The lines a run of the builder appended to a starting state.\<close>

definition added_lines :: "builder \<Rightarrow> builder \<Rightarrow> string list" where
  "added_lines b b' = drop (length (lines b)) (lines b')"

section \<open>Python values and field types\<close>

text \<open>
  The values the generated routines see: the generic tree (\<^verbatim>\<open>None\<close>, booleans, integers,
  strings, lists, dicts), tuples, and objects. A dict is its list of items in insertion
  order. An object is the name of its class with its attributes; dataclass instances and
  every value of a class that is not modelled natively (a float, a datetime, a Decimal, a
  set...) are objects. \<^verbatim>\<open>PMissing\<close> is the sentinel \<^verbatim>\<open>dataclasses.MISSING\<close>.
\<close>

datatype pyval =
    PNone
  | PMissing
  | PBool bool
  | PInt int
  | PStr string
  | PList "pyval list"
  | PTuple "pyval list"
  | PDict "(pyval \<times> pyval) list"
  | PObj string "(string \<times> pyval) list"

text \<open>
  A field type, as \<^verbatim>\<open>_pack_value\<close> and \<^verbatim>\<open>_unpack_field_value\<close> tell types apart. The
  helpers they call (\<^verbatim>\<open>is_dataclass\<close>, \<^verbatim>\<open>get_type_origin\<close>,
  \<^verbatim>\<open>is_special_typing_primitive\<close>, \<^verbatim>\<open>is_union\<close>, \<^verbatim>\<open>is_type_var\<close>, \<^verbatim>\<open>is_generic\<close>,
  \<^verbatim>\<open>is_class_var\<close>, \<^verbatim>\<open>is_init_var\<close>) are not part of the sources; a type is
  represented by the answers they give:

  \<^item> \<^verbatim>\<open>TDataclass c\<close>: \<^verbatim>\<open>is_dataclass(ftype)\<close>;
  \<^item> \<^verbatim>\<open>TSerializableType c\<close>: \<^verbatim>\<open>issubclass(ftype, SerializableType)\<close>;
  \<^item> \<^verbatim>\<open>TStrategy c\<close>: \<^verbatim>\<open>isinstance(ftype, SerializationStrategy)\<close>, an instance of class c;
  \<^item> \<^verbatim>\<open>TAny\<close>, \<^verbatim>\<open>TUnion args\<close>, \<^verbatim>\<open>TAnyStr\<close>, \<^verbatim>\<open>TTypeVar\<close>, \<^verbatim>\<open>TSpecial\<close>,
    \<^verbatim>\<open>TClassVar\<close>, \<^verbatim>\<open>TInitVar\<close>: the special typing primitives (\<^verbatim>\<open>Optional[T]\<close> is
    \<^verbatim>\<open>TUnion [T, TClass ONoneType]\<close>);
  \<^item> \<^verbatim>\<open>TBare b\<close>: one of the builtin containers itself (\<^verbatim>\<open>ftype is list\<close>, ...);
  \<^item> \<^verbatim>\<open>TGeneric origin args\<close>: a parametrized alias (\<^verbatim>\<open>is_generic(ftype)\<close>) with its
    \<^verbatim>\<open>__args__\<close>;
  \<^item> \<^verbatim>\<open>TClass origin\<close>: any other class.

  The origin of a class records the first test of the \<^verbatim>\<open>if/elif\<close> chain that the class
  passes: \<^verbatim>\<open>OList\<close> for a subclass of \<^verbatim>\<open>typing.List\<close>, ..., \<^verbatim>\<open>OCollection\<close> for a
  \<^verbatim>\<open>typing.Collection\<close> that passes none of the collection tests, \<^verbatim>\<open>OByteString\<close> for a
  \<^verbatim>\<open>typing.ByteString\<close> that is neither \<^verbatim>\<open>bytes\<close> nor \<^verbatim>\<open>bytearray\<close>, \<^verbatim>\<open>OPathLikeClass\<close>
  for an \<^verbatim>\<open>os.PathLike\<close> outside \<^verbatim>\<open>pathlib\<close>, \<^verbatim>\<open>OClass\<close> for a class that passes no test.
\<close>

datatype bare = BList | BDeque | BTuple | BSet | BFrozenSet | BChainMap | BDict

datatype origin =
    OList | ODeque | OTuple | OFrozenSet | OAbstractSet | OChainMap | OMapping
  | OBytes | OByteArray | OByteString | OStr | OSequence | OCollection
  | OPosixPath | OWindowsPath | OPath | OPurePosixPath | OPureWindowsPath | OPurePath
  | OPathLike | OPathLikeClass string
  | OEnum string
  | OInt | OFloat | OBool | ONoneType
  | ODatetime | ODate | OTime | OTimedelta | OTimezone | OUUID | ODecimal | OFraction
  | OClass string

datatype ftype =
    TDataclass string
  | TSerializableType string
  | TStrategy string
  | TAny
  | TUnion "ftype list"
  | TAnyStr
  | TTypeVar string
  | TSpecial string
  | TClassVar ftype
  | TInitVar ftype
  | TBare bare
  | TClass origin
  | TGeneric origin "ftype list"

definition is_dataclass :: "ftype \<Rightarrow> bool" where
  "is_dataclass t = (case t of TDataclass _ \<Rightarrow> True | _ \<Rightarrow> False)"

definition is_class_var :: "ftype \<Rightarrow> bool" where
  "is_class_var t = (case t of TClassVar _ \<Rightarrow> True | _ \<Rightarrow> False)"

definition is_init_var :: "ftype \<Rightarrow> bool" where
  "is_init_var t = (case t of TInitVar _ \<Rightarrow> True | _ \<Rightarrow> False)"

text \<open>\<^verbatim>\<open>NoneType = type(None)\<close>\<close>

definition NoneType :: ftype where
  "NoneType = TClass ONoneType"

section \<open>The record type under compilation\<close>

text \<open>
  What the builder reads from \<^verbatim>\<open>self.cls\<close>. A \<^verbatim>\<open>dataclasses.Field\<close> object carries its
  name, \<^verbatim>\<open>default\<close>, \<^verbatim>\<open>default_factory\<close> (each \<^verbatim>\<open>MISSING\<close> when not given) and its
  metadata mapping. Of the metadata only the key \<^verbatim>\<open>deserialize\<close> is read; its value is
  a string, a callable (with its \<^verbatim>\<open>__module__\<close>, its \<^verbatim>\<open>__qualname__\<close> when it has one, and
  whether it has a \<^verbatim>\<open>__dict__\<close>) or something else.
\<close>

datatype metaval =
    MStr string
  | MCallable string "string option" bool
  | MOther pyval

record dc_field =
  field_name :: string
  field_default :: pyval
  field_default_factory :: pyval
  field_metadata :: "(string \<times> metaval) list"

text \<open>An entry of the class namespace: a \<^verbatim>\<open>Field\<close> object or any other value.\<close>

datatype nsentry = NsField dc_field | NsValue pyval

text \<open>A class of \<^verbatim>\<open>cls.__mro__\<close>: whether it is a dataclass, and then the values of its
  \<^verbatim>\<open>__dataclass_fields__\<close>.\<close>

record ancestor =
  anc_is_dataclass :: bool
  anc_fields :: "dc_field list"

text \<open>
  \<^item> \<^verbatim>\<open>cls_name\<close>: \<^verbatim>\<open>type_name(cls)\<close>;
  \<^item> \<^verbatim>\<open>mro_tail\<close>: \<^verbatim>\<open>cls.__mro__[1:]\<close>, most derived ancestor first;
  \<^item> \<^verbatim>\<open>type_hints\<close>: the items of \<^verbatim>\<open>typing.get_type_hints(cls)\<close>, in order;
  \<^item> \<^verbatim>\<open>annotations\<close>: the keys of the class's own \<^verbatim>\<open>__annotations__\<close>;
  \<^item> \<^verbatim>\<open>namespace\<close>: \<^verbatim>\<open>cls.__dict__\<close>;
  \<^item> \<^verbatim>\<open>init_fields\<close>: the fields the dataclass constructor of the class takes, in
    order (the values of \<^verbatim>\<open>cls.__dataclass_fields__\<close> once the class is a dataclass).
\<close>

record pyclass =
  cls_name :: string
  mro_tail :: "ancestor list"
  type_hints :: "(string \<times> ftype) list"
  annotations :: "string list"
  namespace :: "(string \<times> nsentry) list"
  init_fields :: "dc_field list"

text \<open>
  \<^verbatim>\<open>__get_field_types\<close>:
  \<^verbatim>\<open>
    fields = {}
    for fname, ftype in typing.get_type_hints(self.cls).items():
        if is_class_var(ftype) or is_init_var(ftype):
            continue
        if recursive or fname in self.annotations:
            fields[fname] = ftype
    return fields
  \<close>
\<close>

definition get_field_types :: "pyclass \<Rightarrow> bool \<Rightarrow> (string \<times> ftype) list" where
  "get_field_types cls recursive =
     fold (\<lambda>(fname, ftype) fields.
             if is_class_var ftype \<or> is_init_var ftype then fields
             else if recursive \<or> fname \<in> set (annotations cls)
                  then AList.update fname ftype fields
                  else fields)
          (type_hints cls) []"

definition field_types :: "pyclass \<Rightarrow> (string \<times> ftype) list" where
  "field_types cls = get_field_types cls True"

text \<open>
  \<^verbatim>\<open>defaults\<close>:
  \<^verbatim>\<open>
    d = {}
    for ancestor in self.cls.__mro__[-1:0:-1]:
        if is_dataclass(ancestor):
            for field in getattr(ancestor, _FIELDS).values():
                if field.default is not MISSING:
                    d[field.name] = field.default
                else:
                    d[field.name] = field.default_factory
    for name in self.__get_field_types(recursive=False):
        field = self.namespace.get(name, MISSING)
        if isinstance(field, Field):
            if field.default is not MISSING:
                d[name] = field.default
            else:
                d[name] = field.default_factory
        else:
            d[name] = field
    return d
  \<close>
  The slice \<^verbatim>\<open>__mro__[-1:0:-1]\<close> runs from the last class down to the second: the
  ancestors, oldest first.
\<close>

definition field_default_value :: "dc_field \<Rightarrow> pyval" where
  "field_default_value f =
     (if field_default f \<noteq> PMissing then field_default f else field_default_factory f)"

definition ancestor_defaults :: "ancestor \<Rightarrow> (string \<rightharpoonup> pyval) \<Rightarrow> (string \<rightharpoonup> pyval)" where
  "ancestor_defaults a d =
     (if anc_is_dataclass a
      then fold (\<lambda>f d. d(field_name f \<mapsto> field_default_value f)) (anc_fields a) d
      else d)"

definition own_default :: "pyclass \<Rightarrow> string \<Rightarrow> pyval" where
  "own_default cls name =
     (case map_of (namespace cls) name of
        None \<Rightarrow> PMissing
      | Some (NsField f) \<Rightarrow> field_default_value f
      | Some (NsValue v) \<Rightarrow> v)"

definition defaults :: "pyclass \<Rightarrow> (string \<rightharpoonup> pyval)" where
  "defaults cls =
     fold (\<lambda>name d. d(name \<mapsto> own_default cls name))
          (map fst (get_field_types cls False))
          (fold ancestor_defaults (rev (mro_tail cls)) Map.empty)"

text \<open>
  \<^verbatim>\<open>metadatas\<close>: the metadata of the fields declared on the class itself through a
  \<^verbatim>\<open>Field\<close> object.
\<close>

definition metadatas :: "pyclass \<Rightarrow> (string \<rightharpoonup> (string \<times> metaval) list)" where
  "metadatas cls =
     fold (\<lambda>name d. case map_of (namespace cls) name of
                        Some (NsField f) \<Rightarrow> d(name \<mapsto> field_metadata f)
                      | _ \<Rightarrow> d)
          (map fst (get_field_types cls False)) Map.empty"


section \<open>The expressions the builder emits\<close>

text \<open>
  \<^verbatim>\<open>_pack_value\<close> and \<^verbatim>\<open>_unpack_field_value\<close> return the text of a Python expression, or
  raise. The text is kept as the syntax tree it denotes:

  \<^item> \<^verbatim>\<open>Var v\<close> a variable (\<^verbatim>\<open>value\<close>, \<^verbatim>\<open>key\<close>, \<^verbatim>\<open>m\<close>), \<^verbatim>\<open>Flag f\<close> one of the three
    option arguments, \<^verbatim>\<open>NoneLit\<close> the literal \<^verbatim>\<open>None\<close>;
  \<^item> \<^verbatim>\<open>Call f args\<close> is \<^verbatim>\<open>f(args)\<close> for a dotted name f, \<^verbatim>\<open>CallKw f k e\<close> is \<^verbatim>\<open>f(k=e)\<close>,
    \<^verbatim>\<open>CallStar f e\<close> is \<^verbatim>\<open>f(*e)\<close>;
  \<^item> \<^verbatim>\<open>Method e m args\<close> is \<^verbatim>\<open>e.m(args)\<close>, \<^verbatim>\<open>Attr e a\<close> is \<^verbatim>\<open>e.a\<close>;
  \<^item> \<^verbatim>\<open>FieldType s f\<close> is \<^verbatim>\<open>s.__dataclass_fields__['f'].type\<close> for s \<^verbatim>\<open>self\<close> or \<^verbatim>\<open>cls\<close>;
  \<^item> \<^verbatim>\<open>ListComp e v it\<close> is \<^verbatim>\<open>[e for v in it]\<close>;
  \<^item> \<^verbatim>\<open>DictComp k e it\<close> is \<^verbatim>\<open>{k: e for key, value in it}\<close>;
  \<^item> \<^verbatim>\<open>IfElse a f b\<close> is \<^verbatim>\<open>a if f else b\<close> for an option argument f.
\<close>

datatype flag = use_bytes | use_enum | use_datetime

datatype pyexpr =
    Var string
  | NoneLit
  | Flag flag
  | Call string "pyexpr list"
  | CallKw string string pyexpr
  | CallStar string pyexpr
  | Method pyexpr string "pyexpr list"
  | Attr pyexpr string
  | FieldType string string
  | ListComp pyexpr string pyexpr
  | DictComp pyexpr pyexpr pyexpr
  | IfElse pyexpr flag pyexpr

text \<open>
  The errors of compilation. \<^verbatim>\<open>UnserializableDataError\<close> carries a message only;
  \<^verbatim>\<open>UnserializableField\<close> carries the field name, the field type, the owning class and an
  optional hint. A message that interpolates a type or a metadata value keeps that
  value beside the fixed text. \<^verbatim>\<open>IndexError\<close> is \<^verbatim>\<open>args[arg_num]\<close> out of range, and
  \<^verbatim>\<open>KeyError\<close> is \<^verbatim>\<open>self.defaults[fname]\<close> for a name \<^verbatim>\<open>defaults\<close> does not hold.
\<close>

datatype errmsg =
    Text string
  | TypeText ftype string
  | MetaText string "metaval option"

datatype compile_error =
    UnserializableDataError errmsg
  | UnserializableField string ftype string "errmsg option"
  | IndexError
  | KeyError string

definition bare_hint :: "bare \<Rightarrow> string" where
  "bare_hint b =
     (case b of
        BList \<Rightarrow> ''Use typing.List[T] instead''
      | BDeque \<Rightarrow> ''Use typing.Deque[T] instead''
      | BTuple \<Rightarrow> ''Use typing.Tuple[T] instead''
      | BSet \<Rightarrow> ''Use typing.Set[T] instead''
      | BFrozenSet \<Rightarrow> ''Use typing.FrozenSet[T] instead''
      | BChainMap \<Rightarrow> ''Use typing.ChainMap[KT,VT] instead''
      | BDict \<Rightarrow> ''Use typing.Dict[KT,VT] or Mapping[KT,VT] instead'')"

text \<open>
  The branches of \<^verbatim>\<open>_pack_value\<close> that look at the origin only (lines 390-423): byte
  strings, strings, paths, enums, numbers, dates and times, UUIDs, decimals and fractions.
  \<^verbatim>\<open>None\<close> for an origin that has no such branch.
\<close>

definition pack_by_origin :: "origin \<Rightarrow> string \<Rightarrow> pyexpr option" where
  "pack_by_origin origin_type value_name =
     (let v = Var value_name in
      if origin_type \<in> {OBytes, OByteArray, OByteString}
        then Some (IfElse v use_bytes (Method (Call ''encodebytes'' [v]) ''decode'' []))
      else if origin_type = OStr then Some v
      else if origin_type \<in> {OPosixPath, OWindowsPath, OPath, OPurePosixPath,
                               OPureWindowsPath, OPurePath, OPathLike}
        then Some (Method v ''__fspath__'' [])
      else case origin_type of
        OPathLikeClass _ \<Rightarrow> Some (Method v ''__fspath__'' [])
      | OEnum _ \<Rightarrow> Some (IfElse v use_enum (Attr v ''value''))
      | OInt \<Rightarrow> Some (Call ''int'' [v])
      | OFloat \<Rightarrow> Some (Call ''float'' [v])
      | OBool \<Rightarrow> Some v
      | ONoneType \<Rightarrow> Some v
      | ODatetime \<Rightarrow> Some (IfElse v use_datetime (Method v ''isoformat'' []))
      | ODate \<Rightarrow> Some (IfElse v use_datetime (Method v ''isoformat'' []))
      | OTime \<Rightarrow> Some (IfElse v use_datetime (Method v ''isoformat'' []))
      | OTimedelta \<Rightarrow> Some (Method v ''total_seconds'' [])
      | OTimezone \<Rightarrow> Some (Method v ''tzname'' [NoneLit])
      | OUUID \<Rightarrow> Some (Call ''str'' [v])
      | ODecimal \<Rightarrow> Some (Call ''str'' [v])
      | OFraction \<Rightarrow> Some (Call ''str'' [v])
      | _ \<Rightarrow> None)"

text \<open>
  \<^verbatim>\<open>_pack_value(self, fname, ftype, parent, value_name="value")\<close>. The inner function
  \<^verbatim>\<open>inner_expr(arg_num=0, v_name="value")\<close> is
  \<^verbatim>\<open>self._pack_value(fname, args[arg_num], parent, v_name)\<close>. In the branch of
  \<^verbatim>\<open>Optional\<close> the source calls \<^verbatim>\<open>self._pack_value(fname, args[0], parent)\<close>: the value
  name is not passed on and is \<^verbatim>\<open>value\<close> again. A class that enters a branch and matches
  none of its cases falls out of the chain to the last line,
  \<^verbatim>\<open>raise UnserializableField(fname, ftype, parent)\<close>.
\<close>

fun pack_value :: "string \<Rightarrow> ftype \<Rightarrow> string \<Rightarrow> string \<Rightarrow> compile_error + pyexpr" where
  "pack_value fname (TDataclass c) parent value_name =
     Inr (Method (Var value_name) ''to_dict'' [Flag use_bytes, Flag use_enum, Flag use_datetime])"
| "pack_value fname (TSerializableType c) parent value_name =
     Inr (Method (Var value_name) ''_serialize'' [])"
| "pack_value fname (TStrategy c) parent value_name =
     Inr (Method (FieldType ''self'' fname) ''_serialize'' [Var value_name])"
| "pack_value fname TAny parent value_name = Inr (Var value_name)"
| "pack_value fname (TUnion [a, b]) parent value_name =
     (if b = NoneType then pack_value fname a parent ''value''
      else Inl (UnserializableDataError (Text ''Unions are not supported by mashumaro'')))"
| "pack_value fname (TUnion args) parent value_name =
     Inl (UnserializableDataError (Text ''Unions are not supported by mashumaro''))"
| "pack_value fname TAnyStr parent value_name =
     Inl (UnserializableDataError (Text ''AnyStr is not supported by mashumaro''))"
| "pack_value fname (TTypeVar n) parent value_name =
     Inl (UnserializableDataError (Text ''TypeVars are not supported by mashumaro''))"
| "pack_value fname (TSpecial n) parent value_name =
     Inl (UnserializableDataError
            (TypeText (TSpecial n) '' as a field type is not supported by mashumaro''))"
| "pack_value fname (TClassVar t) parent value_name =
     Inl (UnserializableDataError
            (TypeText (TClassVar t) '' as a field type is not supported by mashumaro''))"
| "pack_value fname (TInitVar t) parent value_name =
     Inl (UnserializableDataError
            (TypeText (TInitVar t) '' as a field type is not supported by mashumaro''))"
| "pack_value fname (TBare b) parent value_name =
     Inl (UnserializableField fname (TBare b) parent (Some (Text (bare_hint b))))"
| "pack_value fname (TClass origin_type) parent value_name =
     (case pack_by_origin origin_type value_name of
        Some e \<Rightarrow> Inr e
      | None \<Rightarrow> Inl (UnserializableField fname (TClass origin_type) parent None))"
| "pack_value fname (TGeneric origin_type args) parent value_name =
     (if origin_type \<in> {OList, ODeque, OTuple, OFrozenSet, OAbstractSet, OSequence} then
        (case args of
           [] \<Rightarrow> Inl IndexError
         | a # _ \<Rightarrow>
            (case pack_value fname a parent ''value'' of
               Inl err \<Rightarrow> Inl err
             | Inr inner \<Rightarrow> Inr (ListComp inner ''value'' (Var value_name))))
      else if origin_type = OChainMap then
        (case args of
           [] \<Rightarrow> Inl IndexError
         | k # rest \<Rightarrow>
            if is_dataclass k
            then Inl (UnserializableDataError
                        (Text ''ChainMaps with dataclasses as keys are not supported by mashumaro''))
            else
              (case pack_value fname k parent ''key'' of
                 Inl err \<Rightarrow> Inl err
               | Inr ke \<Rightarrow>
                  (case rest of
                     [] \<Rightarrow> Inl IndexError
                   | v # _ \<Rightarrow>
                      (case pack_value fname v parent ''value'' of
                         Inl err \<Rightarrow> Inl err
                       | Inr ve \<Rightarrow>
                          Inr (ListComp (DictComp ke ve (Method (Var ''m'') ''items'' []))
                                 ''m'' (Attr (Var ''value'') ''maps''))))))
      else if origin_type = OMapping then
        (case args of
           [] \<Rightarrow> Inl IndexError
         | k # rest \<Rightarrow>
            if is_dataclass k
            then Inl (UnserializableDataError
                        (Text ''Mappings with dataclasses as keys are not supported by mashumaro''))
            else
              (case pack_value fname k parent ''key'' of
                 Inl err \<Rightarrow> Inl err
               | Inr ke \<Rightarrow>
                  (case rest of
                     [] \<Rightarrow> Inl IndexError
                   | v # _ \<Rightarrow>
                      (case pack_value fname v parent ''value'' of
                         Inl err \<Rightarrow> Inl err
                       | Inr ve \<Rightarrow>
                          Inr (DictComp ke ve (Method (Var value_name) ''items'' []))))))
      else
        (case pack_by_origin origin_type value_name of
           Some e \<Rightarrow> Inr e
         | None \<Rightarrow> Inl (UnserializableField fname (TGeneric origin_type args) parent None)))"

text \<open>
  The branches of \<^verbatim>\<open>_unpack_field_value\<close> that look at the origin only (lines 559-663,
  but for dates and times, which read the metadata).
\<close>

definition unpack_by_origin :: "origin \<Rightarrow> string \<Rightarrow> pyexpr option" where
  "unpack_by_origin origin_type value_name =
     (let v = Var value_name in
      case origin_type of
        OBytes \<Rightarrow> Some (IfElse v use_bytes (Call ''decodebytes'' [Method v ''encode'' []]))
      | OByteArray \<Rightarrow>
          Some (Call ''bytearray''
                  [IfElse v use_bytes (Call ''decodebytes'' [Method v ''encode'' []])])
      | OStr \<Rightarrow> Some v
      | OPosixPath \<Rightarrow> Some (Call ''pathlib.PosixPath'' [v])
      | OWindowsPath \<Rightarrow> Some (Call ''pathlib.WindowsPath'' [v])
      | OPath \<Rightarrow> Some (Call ''pathlib.Path'' [v])
      | OPurePosixPath \<Rightarrow> Some (Call ''pathlib.PurePosixPath'' [v])
      | OPureWindowsPath \<Rightarrow> Some (Call ''pathlib.PureWindowsPath'' [v])
      | OPurePath \<Rightarrow> Some (Call ''pathlib.PurePath'' [v])
      | OPathLike \<Rightarrow> Some (Call ''pathlib.PurePath'' [v])
      | OPathLikeClass c \<Rightarrow> Some (Call c [v])
      | OEnum e \<Rightarrow> Some (IfElse v use_enum (Call e [v]))
      | OInt \<Rightarrow> Some (Call ''int'' [v])
      | OFloat \<Rightarrow> Some (Call ''float'' [v])
      | OBool \<Rightarrow> Some v
      | ONoneType \<Rightarrow> Some v
      | OTimedelta \<Rightarrow> Some (CallKw ''datetime.timedelta'' ''seconds'' v)
      | OTimezone \<Rightarrow> Some (Call ''parse_timezone'' [v])
      | OUUID \<Rightarrow> Some (Call ''uuid.UUID'' [v])
      | ODecimal \<Rightarrow> Some (Call ''Decimal'' [v])
      | OFraction \<Rightarrow> Some (Call ''Fraction'' [v])
      | _ \<Rightarrow> None)"

text \<open>
  Dates and times (lines 603-653). \<^verbatim>\<open>metadata\<close> is \<^verbatim>\<open>None\<close> unless the field is declared
  through a \<^verbatim>\<open>Field\<close> object on the class itself; the recursive calls never pass it.
  The calls of \<^verbatim>\<open>ensure_module_imported\<close> for the parser's module add import lines only.
\<close>

definition origin_name :: "origin \<Rightarrow> string" where
  "origin_name origin_type =
     (case origin_type of ODatetime \<Rightarrow> ''datetime'' | ODate \<Rightarrow> ''date'' | _ \<Rightarrow> ''time'')"

definition unpack_datetime ::
  "string \<Rightarrow> ftype \<Rightarrow> string \<Rightarrow> origin \<Rightarrow> string \<Rightarrow> (string \<times> metaval) list option
     \<Rightarrow> compile_error + pyexpr" where
  "unpack_datetime fname ftype parent origin_type value_name metadata =
     (let v = Var value_name in
      case metadata of
        None \<Rightarrow>
          Inr (IfElse v use_datetime
                 (Call (''datetime.'' @ origin_name origin_type @ ''.fromisoformat'') [v]))
      | Some md \<Rightarrow>
          (let deserialize = map_of md ''deserialize'';
               unsupported =
                 Inl (UnserializableField fname ftype parent
                        (Some (MetaText ''Unsupported field metadata deserialize option value: ''
                                 deserialize)));
               suffixed = (\<lambda>e. if origin_type = ODate then Method e ''date'' []
                                else if origin_type = OTime then Method e ''time'' []
                                else e)
           in case deserialize of
                Some (MStr s) \<Rightarrow>
                  if s = ''ciso8601''
                    then Inr (IfElse v use_datetime (suffixed (Call ''ciso8601.parse_datetime'' [v])))
                  else if s = ''pendulum''
                    then Inr (IfElse v use_datetime (suffixed (Call ''pendulum.parse'' [v])))
                  else unsupported
              | Some (MCallable module (Some qualname) has_dict) \<Rightarrow>
                  Inr (IfElse v use_datetime (Call (module @ ''.'' @ qualname) [v]))
              | Some (MCallable module None has_dict) \<Rightarrow>
                  if has_dict
                    then Inl (UnserializableField fname ftype parent
                                (Some (Text (''Using callable class instances in field metadata ''
                                   @ ''deserialize option isn'' @ [CHR 0x27] @ ''t supported yet''))))
                    else unsupported
              | _ \<Rightarrow> unsupported))"

text \<open>
  \<^verbatim>\<open>_unpack_field_value(self, fname, ftype, parent, value_name="value", metadata=None)\<close>,
  with \<^verbatim>\<open>inner_expr(arg_num=0, v_name="value")\<close> for
  \<^verbatim>\<open>self._unpack_field_value(fname, args[arg_num], parent, v_name)\<close>.
\<close>

fun unpack_field_value ::
  "string \<Rightarrow> ftype \<Rightarrow> string \<Rightarrow> string \<Rightarrow> (string \<times> metaval) list option
     \<Rightarrow> compile_error + pyexpr" where
  "unpack_field_value fname (TDataclass c) parent value_name metadata =
     Inr (Call (c @ ''.from_dict'')
            [Var value_name, Flag use_bytes, Flag use_enum, Flag use_datetime])"
| "unpack_field_value fname (TSerializableType c) parent value_name metadata =
     Inr (Call (c @ ''._deserialize'') [Var value_name])"
| "unpack_field_value fname (TStrategy c) parent value_name metadata =
     Inr (Method (FieldType ''cls'' fname) ''_deserialize'' [Var value_name])"
| "unpack_field_value fname TAny parent value_name metadata = Inr (Var value_name)"
| "unpack_field_value fname (TUnion [a, b]) parent value_name metadata =
     (if b = NoneType then unpack_field_value fname a parent ''value'' None
      else Inl (UnserializableDataError (Text ''Unions are not supported by mashumaro'')))"
| "unpack_field_value fname (TUnion args) parent value_name metadata =
     Inl (UnserializableDataError (Text ''Unions are not supported by mashumaro''))"
| "unpack_field_value fname TAnyStr parent value_name metadata =
     Inl (UnserializableDataError (Text ''AnyStr is not supported by mashumaro''))"
| "unpack_field_value fname (TTypeVar n) parent value_name metadata =
     Inl (UnserializableDataError (Text ''TypeVars are not supported by mashumaro''))"
| "unpack_field_value fname (TSpecial n) parent value_name metadata =
     Inl (UnserializableDataError
            (TypeText (TSpecial n) '' as a field type is not supported by mashumaro''))"
| "unpack_field_value fname (TClassVar t) parent value_name metadata =
     Inl (UnserializableDataError
            (TypeText (TClassVar t) '' as a field type is not supported by mashumaro''))"
| "unpack_field_value fname (TInitVar t) parent value_name metadata =
     Inl (UnserializableDataError
            (TypeText (TInitVar t) '' as a field type is not supported by mashumaro''))"
| "unpack_field_value fname (TBare b) parent value_name metadata =
     Inl (UnserializableField fname (TBare b) parent (Some (Text (bare_hint b))))"
| "unpack_field_value fname (TClass origin_type) parent value_name metadata =
     (if origin_type \<in> {ODatetime, ODate, OTime}
      then unpack_datetime fname (TClass origin_type) parent origin_type value_name metadata
      else case unpack_by_origin origin_type value_name of
             Some e \<Rightarrow> Inr e
           | None \<Rightarrow> Inl (UnserializableField fname (TClass origin_type) parent None))"
| "unpack_field_value fname (TGeneric origin_type args) parent value_name metadata =
     (if origin_type \<in> {OList, ODeque, OTuple, OFrozenSet, OAbstractSet, OSequence} then
        (case args of
           [] \<Rightarrow> Inl IndexError
         | a # _ \<Rightarrow>
            (case unpack_field_value fname a parent ''value'' None of
               Inl err \<Rightarrow> Inl err
             | Inr inner \<Rightarrow>
                (let comp = ListComp inner ''value'' (Var value_name) in
                 Inr (if origin_type = ODeque then Call ''collections.deque'' [comp]
                      else if origin_type = OTuple then Call ''tuple'' [comp]
                      else if origin_type = OFrozenSet then Call ''frozenset'' [comp]
                      else if origin_type = OAbstractSet then Call ''set'' [comp]
                      else comp))))
      else if origin_type = OChainMap then
        (case args of
           [] \<Rightarrow> Inl IndexError
         | k # rest \<Rightarrow>
            if is_dataclass k
            then Inl (UnserializableDataError
                        (Text ''ChainMaps with dataclasses as keys are not supported by mashumaro''))
            else
              (case unpack_field_value fname k parent ''key'' None of
                 Inl err \<Rightarrow> Inl err
               | Inr ke \<Rightarrow>
                  (case rest of
                     [] \<Rightarrow> Inl IndexError
                   | v # _ \<Rightarrow>
                      (case unpack_field_value fname v parent ''value'' None of
                         Inl err \<Rightarrow> Inl err
                       | Inr ve \<Rightarrow>
                          Inr (CallStar ''collections.ChainMap''
                                 (ListComp (DictComp ke ve (Method (Var ''m'') ''items'' []))
                                    ''m'' (Var value_name)))))))
      else if origin_type = OMapping then
        (case args of
           [] \<Rightarrow> Inl IndexError
         | k # rest \<Rightarrow>
            if is_dataclass k
            then Inl (UnserializableDataError
                        (Text ''Mappings with dataclasses as keys are not supported by mashumaro''))
            else
              (case unpack_field_value fname k parent ''key'' None of
                 Inl err \<Rightarrow> Inl err
               | Inr ke \<Rightarrow>
                  (case rest of
                     [] \<Rightarrow> Inl IndexError
                   | v # _ \<Rightarrow>
                      (case unpack_field_value fname v parent ''value'' None of
                         Inl err \<Rightarrow> Inl err
                       | Inr ve \<Rightarrow>
                          Inr (DictComp ke ve (Method (Var value_name) ''items'' []))))))
      else if origin_type \<in> {ODatetime, ODate, OTime}
      then unpack_datetime fname (TGeneric origin_type args) parent origin_type value_name metadata
      else
        (case unpack_by_origin origin_type value_name of
           Some e \<Rightarrow> Inr e
         | None \<Rightarrow> Inl (UnserializableField fname (TGeneric origin_type args) parent None)))"

section \<open>Unsupported shapes\<close>

text \<open>
  The test of both functions for \<^verbatim>\<open>Optional\<close>: \<^verbatim>\<open>len(args) == 2 and args[1] == NoneType\<close>.
\<close>

definition is_optional :: "ftype list \<Rightarrow> bool" where
  "is_optional args = (length args = 2 \<and> args ! 1 = NoneType)"

text \<open>
  An error of compilation names a field, its type and the owning class when it is an
  \<^verbatim>\<open>UnserializableField\<close> carrying the three; an \<^verbatim>\<open>UnserializableDataError\<close> carries a
  message only.
\<close>

definition names_field :: "compile_error \<Rightarrow> string \<Rightarrow> ftype \<Rightarrow> string \<Rightarrow> bool" where
  "names_field err fname ftype parent =
     (case err of
        UnserializableField f t p msg \<Rightarrow> f = fname \<and> t = ftype \<and> p = parent
      | _ \<Rightarrow> False)"

text \<open>The three messages raised for unions, \<^verbatim>\<open>AnyStr\<close> and type variables.\<close>

definition unions_msg :: compile_error where
  "unions_msg = UnserializableDataError (Text ''Unions are not supported by mashumaro'')"

definition anystr_msg :: compile_error where
  "anystr_msg = UnserializableDataError (Text ''AnyStr is not supported by mashumaro'')"

definition typevars_msg :: compile_error where
  "typevars_msg = UnserializableDataError (Text ''TypeVars are not supported by mashumaro'')"

text \<open>
  The shapes claim C4 lists, with the error the source raises for each: a bare builtin
  container, a type variable, \<^verbatim>\<open>AnyStr\<close>, and a union that is not \<^verbatim>\<open>Optional\<close> (\<^verbatim>\<open>None\<close> for
  every other type). Lemmas \<^verbatim>\<open>shape_error_pack\<close> and \<^verbatim>\<open>shape_error_unpack\<close> prove that
  \<^verbatim>\<open>_pack_value\<close> and \<^verbatim>\<open>_unpack_field_value\<close> raise exactly it.
\<close>

definition shape_error :: "string \<Rightarrow> ftype \<Rightarrow> string \<Rightarrow> compile_error option" where
  "shape_error fname ftype parent =
     (case ftype of
        TBare b \<Rightarrow> Some (UnserializableField fname (TBare b) parent (Some (Text (bare_hint b))))
      | TTypeVar n \<Rightarrow> Some typevars_msg
      | TAnyStr \<Rightarrow> Some anystr_msg
      | TUnion args \<Rightarrow> if is_optional args then None else Some unions_msg
      | _ \<Rightarrow> None)"

section \<open>Running the emitted code\<close>

text \<open>
  The exceptions of a run. \<^verbatim>\<open>MissingField(fname, type, cls)\<close> and
  \<^verbatim>\<open>InvalidFieldValue(fname, type, value, cls)\<close> are raised by the generated
  \<^verbatim>\<open>from_dict\<close>. The type an error carries is what the name in the raise statement
  evaluates to: \<^verbatim>\<open>type_name(ftype)\<close>, the field type itself, and for a serialization
  strategy \<^verbatim>\<open>type_name(ftype.__class__)\<close>, the class of the strategy object.

  \<^verbatim>\<open>InvalidFieldValue\<close> has two more components, the attributes \<^verbatim>\<open>__cause__\<close> and
  \<^verbatim>\<open>__context__\<close> that Python gives the exception: \<^verbatim>\<open>raise X from e\<close> sets the cause of
  \<^verbatim>\<open>X\<close> to \<^verbatim>\<open>e\<close>, a raise statement without \<^verbatim>\<open>from\<close> leaves it \<^verbatim>\<open>None\<close>, and a raise
  inside a handler \<^verbatim>\<open>except ... as e\<close> sets the context to the handled exception \<^verbatim>\<open>e\<close>.

  \<^verbatim>\<open>Raised c m\<close> is an exception of any other class c that derives from \<^verbatim>\<open>Exception\<close>
  and not from \<^verbatim>\<open>AttributeError\<close>. \<^verbatim>\<open>BaseRaised c m\<close> is an exception of a class c that
  derives from \<^verbatim>\<open>BaseException\<close> and not from \<^verbatim>\<open>Exception\<close>: \<^verbatim>\<open>KeyboardInterrupt\<close>,
  \<^verbatim>\<open>SystemExit\<close>, \<^verbatim>\<open>GeneratorExit\<close>. The classes \<^verbatim>\<open>MissingField\<close> and \<^verbatim>\<open>InvalidFieldValue\<close>
  (module \<^verbatim>\<open>mashumaro.exceptions\<close>, not part of the sources) derive from \<^verbatim>\<open>Exception\<close>
  and not from \<^verbatim>\<open>AttributeError\<close>.
\<close>

datatype type_ref = TypeRef ftype | ClassOf ftype

datatype exc =
    MissingField string type_ref string
  | InvalidFieldValue string type_ref pyval string "exc option" "exc option"
  | AttributeError string
  | TypeError string
  | ValueError string
  | Raised string string
  | BaseRaised string string

definition is_AttributeError :: "exc \<Rightarrow> bool" where
  "is_AttributeError e = (case e of AttributeError _ \<Rightarrow> True | _ \<Rightarrow> False)"

text \<open>\<^verbatim>\<open>isinstance(e, Exception)\<close>: what a handler \<^verbatim>\<open>except Exception\<close> catches.\<close>

definition is_Exception :: "exc \<Rightarrow> bool" where
  "is_Exception e = (case e of BaseRaised _ _ \<Rightarrow> False | _ \<Rightarrow> True)"

text \<open>
  Everything the emitted code calls that is not modelled natively is a parameter of the
  run: the named callables (\<^verbatim>\<open>float\<close>, \<^verbatim>\<open>str\<close>, \<^verbatim>\<open>uuid.UUID\<close>, \<^verbatim>\<open>Decimal\<close>,
  \<^verbatim>\<open>C.from_dict\<close> of a nested record, \<^verbatim>\<open>C._deserialize\<close>, ...), the methods and
  attributes of objects, iteration over objects, hashing and comparing objects that are
  used as dict keys, the strategy object \<^verbatim>\<open>cls.__dataclass_fields__['f'].type\<close>, calling an
  object (a default factory), and \<^verbatim>\<open>int\<close> of a string. Iterating an object gives the
  elements it yields and, when the iteration ends with an exception instead of
  \<^verbatim>\<open>StopIteration\<close>, that exception. \<^verbatim>\<open>key_first\<close> tells whether a dict comprehension
  evaluates the key before the value (Python 3.8 and later) or after it.
\<close>

record pyenv =
  call_ext :: "string \<Rightarrow> pyval list \<Rightarrow> exc + pyval"
  call_kw_ext :: "string \<Rightarrow> string \<Rightarrow> pyval \<Rightarrow> exc + pyval"
  call_obj :: "pyval \<Rightarrow> pyval list \<Rightarrow> exc + pyval"
  method_ext :: "pyval \<Rightarrow> string \<Rightarrow> pyval list \<Rightarrow> exc + pyval"
  attr_ext :: "pyval \<Rightarrow> string \<Rightarrow> exc + pyval"
  iter_ext :: "pyval \<Rightarrow> pyval list \<times> exc option"
  hash_ext :: "pyval \<Rightarrow> exc option"
  key_eq_ext :: "pyval \<Rightarrow> pyval \<Rightarrow> exc + bool"
  field_type_ext :: "string \<Rightarrow> string \<Rightarrow> exc + pyval"
  int_of_str :: "string \<Rightarrow> int option"
  key_first :: bool

text \<open>Running a list of computations in order; the first exception ends the run.\<close>

primrec map_result :: "('a \<Rightarrow> 'e + 'b) \<Rightarrow> 'a list \<Rightarrow> 'e + 'b list" where
  "map_result f [] = Inr []"
| "map_result f (x # xs) =
     (case f x of
        Inl e \<Rightarrow> Inl e
      | Inr y \<Rightarrow> (case map_result f xs of Inl e \<Rightarrow> Inl e | Inr ys \<Rightarrow> Inr (y # ys)))"

lemma map_result_cong [fundef_cong]:
  "xs = ys \<Longrightarrow> (\<And>x. x \<in> set ys \<Longrightarrow> f x = g x) \<Longrightarrow> map_result f xs = map_result g ys"
proof (induction ys arbitrary: xs)
  case Nil
  then show ?case by simp
next
  case (Cons y ys)
  have "map_result f ys = map_result g ys"
    using Cons.prems(2) by (intro Cons.IH) simp_all
  moreover have "f y = g y"
    using Cons.prems(2) by simp
  ultimately show ?case
    using Cons.prems(1) by (simp split: sum.split)
qed

subsection \<open>Built-in operations\<close>

text \<open>
  \<^verbatim>\<open>for x in v\<close>: the elements the loop sees, and the exception that ends it if one
  does. Lists and tuples give their elements, a dict its keys, a string its characters;
  \<^verbatim>\<open>None\<close>, \<^verbatim>\<open>MISSING\<close>, booleans and integers are not iterable, so the loop sees nothing
  and ends with a \<^verbatim>\<open>TypeError\<close>.
\<close>

definition py_iter :: "pyenv \<Rightarrow> pyval \<Rightarrow> pyval list \<times> exc option" where
  "py_iter P v =
     (case v of
        PList xs \<Rightarrow> (xs, None)
      | PTuple xs \<Rightarrow> (xs, None)
      | PDict kvs \<Rightarrow> (map fst kvs, None)
      | PStr s \<Rightarrow> (map (\<lambda>c. PStr [c]) s, None)
      | PObj c a \<Rightarrow> iter_ext P v
      | _ \<Rightarrow> ([], Some (TypeError ''object is not iterable'')))"

text \<open>What a loop returns when its body has run over the elements: the exception of the
  body if it raised one, else the exception that ended the iteration, else the result.\<close>

definition end_iter :: "exc option \<Rightarrow> exc + 'a \<Rightarrow> exc + 'a" where
  "end_iter ending r =
     (case r of
        Inl e \<Rightarrow> Inl e
      | Inr y \<Rightarrow> (case ending of Some e \<Rightarrow> Inl e | None \<Rightarrow> Inr y))"

text \<open>
  Method calls. \<^verbatim>\<open>get\<close> and \<^verbatim>\<open>items\<close> are the methods of a dict; \<^verbatim>\<open>None\<close>, \<^verbatim>\<open>MISSING\<close>,
  booleans, integers, strings, lists and tuples have no attribute of either name. The
  key of \<^verbatim>\<open>d.get('fname', MISSING)\<close> is a string, and the keys of the dict that equal it
  are strings. Every other method call is a parameter.
\<close>

definition py_method :: "pyenv \<Rightarrow> pyval \<Rightarrow> string \<Rightarrow> pyval list \<Rightarrow> exc + pyval" where
  "py_method P v name args =
     (case v of
        PObj c a \<Rightarrow> method_ext P v name args
      | PDict kvs \<Rightarrow>
          (if name = ''items'' \<and> args = []
             then Inr (PList (map (\<lambda>(k, x). PTuple [k, x]) kvs))
           else case (name, args) of
             (n, [PStr k, dflt]) \<Rightarrow>
               if n = ''get'' then Inr (case map_of kvs (PStr k) of Some x \<Rightarrow> x | None \<Rightarrow> dflt)
               else method_ext P v name args
           | _ \<Rightarrow> method_ext P v name args)
      | _ \<Rightarrow>
          (if name = ''get'' \<or> name = ''items''
             then Inl (AttributeError name)
           else method_ext P v name args))"

text \<open>\<^verbatim>\<open>getattr(v, name)\<close>: an attribute an object holds, else a parameter (class
  attributes, properties, attributes of built-in values).\<close>

definition py_getattr :: "pyenv \<Rightarrow> pyval \<Rightarrow> string \<Rightarrow> exc + pyval" where
  "py_getattr P v name =
     (case v of
        PObj c a \<Rightarrow> (case map_of a name of Some x \<Rightarrow> Inr x | None \<Rightarrow> attr_ext P v name)
      | _ \<Rightarrow> attr_ext P v name)"

text \<open>
  Calls by name. \<^verbatim>\<open>int(v)\<close> is the identity on an integer, 0 or 1 on a boolean, parses
  a string (\<^verbatim>\<open>ValueError\<close> when it is no numeral) and is a \<^verbatim>\<open>TypeError\<close> on \<^verbatim>\<open>None\<close>,
  \<^verbatim>\<open>MISSING\<close>, a list, a tuple and a dict. \<^verbatim>\<open>tuple(v)\<close> collects the elements of an
  iterable. \<^verbatim>\<open>f(*v)\<close> iterates \<^verbatim>\<open>v\<close> for the arguments of the call.
\<close>

definition py_int :: "pyenv \<Rightarrow> pyval \<Rightarrow> exc + pyval" where
  "py_int P v =
     (case v of
        PInt n \<Rightarrow> Inr (PInt n)
      | PBool b \<Rightarrow> Inr (PInt (if b then 1 else 0))
      | PStr s \<Rightarrow>
          (case int_of_str P s of
             Some n \<Rightarrow> Inr (PInt n)
           | None \<Rightarrow> Inl (ValueError ''invalid literal for int() with base 10''))
      | PObj c a \<Rightarrow> call_ext P ''int'' [v]
      | _ \<Rightarrow> Inl (TypeError ''int() argument must be a string, a bytes-like object or a number''))"

definition py_elements :: "pyenv \<Rightarrow> pyval \<Rightarrow> exc + pyval list" where
  "py_elements P v = (case py_iter P v of (xs, ending) \<Rightarrow> end_iter ending (Inr xs))"

definition py_call :: "pyenv \<Rightarrow> string \<Rightarrow> pyval list \<Rightarrow> exc + pyval" where
  "py_call P f args =
     (case args of
        [v] \<Rightarrow>
          if f = ''int'' then py_int P v
          else if f = ''tuple''
            then (case py_elements P v of Inl e \<Rightarrow> Inl e | Inr xs \<Rightarrow> Inr (PTuple xs))
          else call_ext P f args
      | _ \<Rightarrow> call_ext P f args)"

text \<open>
  Storing into a dict. The key is hashed first: a list or a dict is not hashable, a
  tuple is when its elements are, hashing an object is a parameter, and every other
  value is hashable. Keys are then compared as Python compares them: \<^verbatim>\<open>True\<close> and \<^verbatim>\<open>1\<close>
  are the same key, and so are \<^verbatim>\<open>False\<close> and \<^verbatim>\<open>0\<close>; other built-in values are the same key
  when they are the same value; whether two keys are the same when one of them is or
  holds an object is a parameter. Storing under a key the dict already holds replaces
  the value and keeps the key.
\<close>

fun py_hash :: "pyenv \<Rightarrow> pyval \<Rightarrow> exc option" where
  "py_hash P (PList xs) = Some (TypeError ''unhashable type'')"
| "py_hash P (PDict kvs) = Some (TypeError ''unhashable type'')"
| "py_hash P (PTuple []) = None"
| "py_hash P (PTuple (x # xs)) =
     (case py_hash P x of Some e \<Rightarrow> Some e | None \<Rightarrow> py_hash P (PTuple xs))"
| "py_hash P (PObj c a) = hash_ext P (PObj c a)"
| "py_hash P v = None"

fun has_object :: "pyval \<Rightarrow> bool" where
  "has_object (PObj c a) = True"
| "has_object (PTuple xs) = list_ex has_object xs"
| "has_object v = False"

fun key_norm :: "pyval \<Rightarrow> pyval" where
  "key_norm (PBool b) = PInt (if b then 1 else 0)"
| "key_norm (PTuple xs) = PTuple (map key_norm xs)"
| "key_norm v = v"

definition same_key :: "pyenv \<Rightarrow> pyval \<Rightarrow> pyval \<Rightarrow> exc + bool" where
  "same_key P a b =
     (if has_object a \<or> has_object b then key_eq_ext P a b
      else Inr (key_norm a = key_norm b))"

fun dict_setitem ::
  "pyenv \<Rightarrow> (pyval \<times> pyval) list \<Rightarrow> pyval \<Rightarrow> pyval \<Rightarrow> exc + (pyval \<times> pyval) list" where
  "dict_setitem P [] k v = Inr [(k, v)]"
| "dict_setitem P ((k', v') # kvs) k v =
     (case same_key P k' k of
        Inl e \<Rightarrow> Inl e
      | Inr True \<Rightarrow> Inr ((k', v) # kvs)
      | Inr False \<Rightarrow>
          (case dict_setitem P kvs k v of
             Inl e \<Rightarrow> Inl e
           | Inr kvs' \<Rightarrow> Inr ((k', v') # kvs')))"

definition py_store ::
  "pyenv \<Rightarrow> (pyval \<times> pyval) list \<Rightarrow> pyval \<Rightarrow> pyval \<Rightarrow> exc + (pyval \<times> pyval) list" where
  "py_store P kvs k v =
     (case py_hash P k of Some e \<Rightarrow> Inl e | None \<Rightarrow> dict_setitem P kvs k v)"

text \<open>
  \<^verbatim>\<open>for key, value in it\<close>: each element is unpacked into exactly two values. Unpacking
  takes two elements and then asks for a third: too few or too many are a
  \<^verbatim>\<open>ValueError\<close>, and an exception that ends the iteration before that is raised as it is.
\<close>

definition unpack_pair :: "pyenv \<Rightarrow> pyval \<Rightarrow> exc + pyval \<times> pyval" where
  "unpack_pair P item =
     (case py_iter P item of
        (a # b # c # rest, ending) \<Rightarrow> Inl (ValueError ''too many values to unpack (expected 2)'')
      | ([a, b], ending) \<Rightarrow> end_iter ending (Inr (a, b))
      | (xs, ending) \<Rightarrow> end_iter ending (Inl (ValueError ''not enough values to unpack (expected 2)'')))"

subsection \<open>Evaluating an expression\<close>

text \<open>
  The value of an emitted expression under the option arguments and the local
  variables. The loop variable of a comprehension is bound for its element expression
  only, and the iterable is evaluated outside. A comprehension whose iteration ends
  with an exception raises it after the elements that came before were handled.
\<close>

type_synonym flags = "flag \<Rightarrow> bool"

type_synonym locals = "string \<rightharpoonup> pyval"

text \<open>The loop of a dict comprehension: each element gives a key and a value, which are
  stored before the next element is looked at.\<close>

primrec dict_comp ::
  "pyenv \<Rightarrow> ('a \<Rightarrow> exc + pyval \<times> pyval) \<Rightarrow> 'a list \<Rightarrow> (pyval \<times> pyval) list
     \<Rightarrow> exc + (pyval \<times> pyval) list" where
  "dict_comp P f [] acc = Inr acc"
| "dict_comp P f (x # xs) acc =
     (case f x of
        Inl e \<Rightarrow> Inl e
      | Inr (k, v) \<Rightarrow>
          (case py_store P acc k v of
             Inl e \<Rightarrow> Inl e
           | Inr acc' \<Rightarrow> dict_comp P f xs acc'))"

lemma dict_comp_cong [fundef_cong]:
  "xs = ys \<Longrightarrow> (\<And>x. x \<in> set ys \<Longrightarrow> f x = g x) \<Longrightarrow> dict_comp P f xs acc = dict_comp P g ys acc"
proof (induction ys arbitrary: xs acc)
  case Nil
  then show ?case by simp
next
  case (Cons y ys)
  have step: "dict_comp P f ys acc' = dict_comp P g ys acc'" for acc'
    using Cons.prems(2) by (intro Cons.IH) simp_all
  have "f y = g y"
    using Cons.prems(2) by simp
  then show ?case
    using Cons.prems(1) step by (simp split: sum.split prod.split)
qed

fun eval_expr :: "pyenv \<Rightarrow> flags \<Rightarrow> locals \<Rightarrow> pyexpr \<Rightarrow> exc + pyval" where
  "eval_expr P fl env (Var v) =
     (case env v of Some x \<Rightarrow> Inr x | None \<Rightarrow> Inl (Raised ''NameError'' v))"
| "eval_expr P fl env NoneLit = Inr PNone"
| "eval_expr P fl env (Flag f) = Inr (PBool (fl f))"
| "eval_expr P fl env (Call f args) =
     (case map_result (eval_expr P fl env) args of
        Inl e \<Rightarrow> Inl e
      | Inr vs \<Rightarrow> py_call P f vs)"
| "eval_expr P fl env (CallKw f k a) =
     (case eval_expr P fl env a of
        Inl e \<Rightarrow> Inl e
      | Inr v \<Rightarrow> call_kw_ext P f k v)"
| "eval_expr P fl env (CallStar f a) =
     (case eval_expr P fl env a of
        Inl e \<Rightarrow> Inl e
      | Inr v \<Rightarrow> (case py_elements P v of Inl e \<Rightarrow> Inl e | Inr vs \<Rightarrow> py_call P f vs))"
| "eval_expr P fl env (Method obj m args) =
     (case eval_expr P fl env obj of
        Inl e \<Rightarrow> Inl e
      | Inr v \<Rightarrow>
          (case map_result (eval_expr P fl env) args of
             Inl e \<Rightarrow> Inl e
           | Inr vs \<Rightarrow> py_method P v m vs))"
| "eval_expr P fl env (Attr obj a) =
     (case eval_expr P fl env obj of
        Inl e \<Rightarrow> Inl e
      | Inr v \<Rightarrow> py_getattr P v a)"
| "eval_expr P fl env (FieldType s f) = field_type_ext P s f"
| "eval_expr P fl env (ListComp body v it) =
     (case eval_expr P fl env it of
        Inl e \<Rightarrow> Inl e
      | Inr c \<Rightarrow>
          (case py_iter P c of
             (xs, ending) \<Rightarrow>
               (case end_iter ending
                       (map_result (\<lambda>x. eval_expr P fl (env(v \<mapsto> x)) body) xs) of
                  Inl e \<Rightarrow> Inl e
                | Inr ys \<Rightarrow> Inr (PList ys))))"
| "eval_expr P fl env (DictComp k body it) =
     (case eval_expr P fl env it of
        Inl e \<Rightarrow> Inl e
      | Inr c \<Rightarrow>
          (case py_iter P c of
             (items, ending) \<Rightarrow>
               (case end_iter ending
                       (dict_comp P
                          (\<lambda>item. case unpack_pair P item of
                                     Inl e \<Rightarrow> Inl e
                                   | Inr (a, b) \<Rightarrow>
                                       (let env' = env(''key'' \<mapsto> a, ''value'' \<mapsto> b) in
                                        if key_first P then
                                          (case eval_expr P fl env' k of
                                             Inl e \<Rightarrow> Inl e
                                           | Inr kv \<Rightarrow>
                                               (case eval_expr P fl env' body of
                                                  Inl e \<Rightarrow> Inl e
                                                | Inr vv \<Rightarrow> Inr (kv, vv)))
                                        else
                                          (case eval_expr P fl env' body of
                                             Inl e \<Rightarrow> Inl e
                                           | Inr vv \<Rightarrow>
                                               (case eval_expr P fl env' k of
                                                  Inl e \<Rightarrow> Inl e
                                                | Inr kv \<Rightarrow> Inr (kv, vv)))))
                          items []) of
                  Inl e \<Rightarrow> Inl e
                | Inr d \<Rightarrow> Inr (PDict d))))"
| "eval_expr P fl env (IfElse a f b) =
     (if fl f then eval_expr P fl env a else eval_expr P fl env b)"

text \<open>
  A run of an emitted routine: the parameters above, and the evaluation of an emitted
  expression under the option arguments and the local variables, which either returns
  a value or raises. The routines below are stated for every run; \<^verbatim>\<open>python_run\<close> is the
  run that evaluates with \<^verbatim>\<open>eval_expr\<close>.
\<close>

record pyrun =
  env :: pyenv
  evaluate :: "flags \<Rightarrow> locals \<Rightarrow> pyexpr \<Rightarrow> exc + pyval"

definition python_run :: "pyenv \<Rightarrow> pyrun" where
  "python_run P = \<lparr>env = P, evaluate = eval_expr P\<rparr>"
section \<open>The two routines of a record type\<close>

subsection \<open>Compilation\<close>

text \<open>
  \<^verbatim>\<open>add_from_dict\<close> emits, for every field of \<^verbatim>\<open>self.field_types\<close> in order, one block of
  the body of \<^verbatim>\<open>from_dict\<close>. What a block depends on is kept as a \<^verbatim>\<open>field_code\<close>: the
  field name, whether \<^verbatim>\<open>self.defaults[fname] is MISSING\<close> (which of the two shapes of the
  block was emitted), the type named in its raise statements, and the expression
  \<^verbatim>\<open>unpacked_value\<close>. Compilation raises what \<^verbatim>\<open>self.defaults[fname]\<close> or
  \<^verbatim>\<open>_unpack_field_value\<close> raises, at the first field that does.
\<close>

record field_code =
  fc_name :: string
  fc_required :: bool
  fc_type :: type_ref
  fc_expr :: pyexpr

text \<open>\<^verbatim>\<open>type_name(ftype.__class__)\<close> if \<^verbatim>\<open>isinstance(ftype, SerializationStrategy)\<close>, else
  \<^verbatim>\<open>type_name(ftype)\<close>.\<close>

definition field_type_ref :: "ftype \<Rightarrow> type_ref" where
  "field_type_ref ftype = (case ftype of TStrategy c \<Rightarrow> ClassOf ftype | _ \<Rightarrow> TypeRef ftype)"

definition add_from_dict_field :: "pyclass \<Rightarrow> string \<times> ftype \<Rightarrow> compile_error + field_code" where
  "add_from_dict_field cls = (\<lambda>(fname, ftype).
     case defaults cls fname of
       None \<Rightarrow> Inl (KeyError fname)
     | Some dv \<Rightarrow>
         (case unpack_field_value fname ftype (cls_name cls) ''value'' (metadatas cls fname) of
            Inl err \<Rightarrow> Inl err
          | Inr unpacked_value \<Rightarrow>
              Inr \<lparr>fc_name = fname, fc_required = (dv = PMissing),
                   fc_type = field_type_ref ftype, fc_expr = unpacked_value\<rparr>))"

definition add_from_dict :: "pyclass \<Rightarrow> compile_error + field_code list" where
  "add_from_dict cls = map_result (add_from_dict_field cls) (field_types cls)"

text \<open>\<^verbatim>\<open>add_to_dict\<close> emits one block per field, with the expression
  \<^verbatim>\<open>self._pack_value(fname, ftype, self.cls)\<close>.\<close>

definition add_to_dict_field :: "pyclass \<Rightarrow> string \<times> ftype \<Rightarrow> compile_error + string \<times> pyexpr" where
  "add_to_dict_field cls = (\<lambda>(fname, ftype).
     case pack_value fname ftype (cls_name cls) ''value'' of
       Inl err \<Rightarrow> Inl err
     | Inr packed_value \<Rightarrow> Inr (fname, packed_value))"

definition add_to_dict :: "pyclass \<Rightarrow> compile_error + (string \<times> pyexpr) list" where
  "add_to_dict cls = map_result (add_to_dict_field cls) (field_types cls)"

subsection \<open>The emitted \<^verbatim>\<open>from_dict\<close>\<close>

text \<open>
  The block of one field, for a field without a default (\<^verbatim>\<open>fc_required\<close>):
  \<^verbatim>\<open>
    value = d.get('fname', MISSING)
    if value is None:
        kwargs['fname'] = None
    else:
        if value is MISSING:
            raise MissingField('fname',<type>,cls)
        else:
            try:
                kwargs['fname'] = <unpacked_value>
            except Exception as e:
                raise InvalidFieldValue('fname',<type>,value,cls)
  \<close>
  and for a field with a default:
  \<^verbatim>\<open>
    value = d.get('fname', MISSING)
    if value is None:
        kwargs['fname'] = None
    else:
        if value is not MISSING:
            try:
                kwargs['fname'] = <unpacked_value>
            except Exception as e:
                raise InvalidFieldValue('fname',<type>,value,cls)
  \<close>
  The block maps the dict \<^verbatim>\<open>kwargs\<close> to the updated one, or raises. \<^verbatim>\<open>try_unpack\<close> is
  the \<^verbatim>\<open>try\<close> statement of either shape: the handler catches what derives from
  \<^verbatim>\<open>Exception\<close> and lets every other exception pass; its raise statement has no \<^verbatim>\<open>from\<close>
  clause, so the new exception has no cause, and the handled one is its context. The
  names \<^verbatim>\<open>cls\<close> and \<^verbatim>\<open>self\<close> and the global names of an expression are resolved by the
  run; \<^verbatim>\<open>value\<close> is the only local variable an emitted expression reads.
\<close>

definition try_unpack ::
  "pyrun \<Rightarrow> flags \<Rightarrow> string \<Rightarrow> field_code \<Rightarrow> pyval \<Rightarrow> (string \<times> pyval) list
     \<Rightarrow> exc + (string \<times> pyval) list" where
  "try_unpack R fl cls fc value kwargs =
     (case evaluate R fl [''value'' \<mapsto> value] (fc_expr fc) of
        Inl e \<Rightarrow>
          if is_Exception e
            then Inl (InvalidFieldValue (fc_name fc) (fc_type fc) value cls None (Some e))
          else Inl e
      | Inr v \<Rightarrow> Inr (AList.update (fc_name fc) v kwargs))"

definition from_dict_field ::
  "pyrun \<Rightarrow> flags \<Rightarrow> string \<Rightarrow> pyval \<Rightarrow> field_code \<Rightarrow> (string \<times> pyval) list
     \<Rightarrow> exc + (string \<times> pyval) list" where
  "from_dict_field R fl cls d fc kwargs =
     (case py_method (env R) d ''get'' [PStr (fc_name fc), PMissing] of
        Inl e \<Rightarrow> Inl e
      | Inr value \<Rightarrow>
          if value = PNone then Inr (AList.update (fc_name fc) PNone kwargs)
          else if fc_required fc then
            (if value = PMissing then Inl (MissingField (fc_name fc) (fc_type fc) cls)
             else try_unpack R fl cls fc value kwargs)
          else
            (if value \<noteq> PMissing then try_unpack R fl cls fc value kwargs
             else Inr kwargs))"

fun from_dict_fields ::
  "pyrun \<Rightarrow> flags \<Rightarrow> string \<Rightarrow> pyval \<Rightarrow> field_code list \<Rightarrow> (string \<times> pyval) list
     \<Rightarrow> exc + (string \<times> pyval) list" where
  "from_dict_fields R fl cls d [] kwargs = Inr kwargs"
| "from_dict_fields R fl cls d (fc # fcs) kwargs =
     (case from_dict_field R fl cls d fc kwargs of
        Inl e \<Rightarrow> Inl e
      | Inr kwargs' \<Rightarrow> from_dict_fields R fl cls d fcs kwargs')"

text \<open>
  \<^verbatim>\<open>cls(**kwargs)\<close> for a dataclass: the generated \<^verbatim>\<open>__init__\<close> refuses a keyword that
  is no field and a missing field that has neither a default nor a factory (both a
  \<^verbatim>\<open>TypeError\<close>); then every field gets its argument, else its default, else the value
  its default factory returns. The instance holds the fields in their order.
\<close>

definition init_arg :: "pyenv \<Rightarrow> (string \<times> pyval) list \<Rightarrow> dc_field \<Rightarrow> exc + string \<times> pyval" where
  "init_arg P kwargs f =
     (case map_of kwargs (field_name f) of
        Some v \<Rightarrow> Inr (field_name f, v)
      | None \<Rightarrow>
          if field_default f \<noteq> PMissing then Inr (field_name f, field_default f)
          else (case call_obj P (field_default_factory f) [] of
                  Inl e \<Rightarrow> Inl e
                | Inr v \<Rightarrow> Inr (field_name f, v)))"

definition dataclass_init :: "pyenv \<Rightarrow> pyclass \<Rightarrow> (string \<times> pyval) list \<Rightarrow> exc + pyval" where
  "dataclass_init P cls kwargs =
     (if list_ex (\<lambda>k. k \<notin> set (map field_name (init_fields cls))) (map fst kwargs)
        then Inl (TypeError ''__init__() got an unexpected keyword argument'')
      else if list_ex (\<lambda>f. map_of kwargs (field_name f) = None \<and> field_default f = PMissing
                            \<and> field_default_factory f = PMissing) (init_fields cls)
        then Inl (TypeError ''__init__() missing required positional arguments'')
      else case map_result (init_arg P kwargs) (init_fields cls) of
             Inl e \<Rightarrow> Inl e
           | Inr attrs \<Rightarrow> Inr (PObj (cls_name cls) attrs))"

text \<open>
  The whole routine:
  \<^verbatim>\<open>
    @classmethod
    def from_dict(cls, d, use_bytes=False, use_enum=False, use_datetime=False):
        try:
            kwargs = {}
            <the blocks of the fields>
        except AttributeError:
            if not isinstance(d, dict):
                raise ValueError('Argument for <cls>.from_dict method should be a dict instance') from None
            else:
                raise
        return cls(**kwargs)
  \<close>
\<close>

definition is_dict :: "pyval \<Rightarrow> bool" where
  "is_dict d = (case d of PDict _ \<Rightarrow> True | _ \<Rightarrow> False)"

definition not_a_dict_message :: "string \<Rightarrow> string" where
  "not_a_dict_message cls =
     ''Argument for '' @ cls @ ''.from_dict method should be a dict instance''"

definition from_dict :: "pyrun \<Rightarrow> pyclass \<Rightarrow> field_code list \<Rightarrow> flags \<Rightarrow> pyval \<Rightarrow> exc + pyval" where
  "from_dict R cls code fl d =
     (case from_dict_fields R fl (cls_name cls) d code [] of
        Inl e \<Rightarrow>
          if is_AttributeError e \<and> \<not> is_dict d
            then Inl (ValueError (not_a_dict_message (cls_name cls)))
          else Inl e
      | Inr kwargs \<Rightarrow> dataclass_init (env R) cls kwargs)"

subsection \<open>The emitted \<^verbatim>\<open>to_dict\<close>\<close>

text \<open>
  The block of one field:
  \<^verbatim>\<open>
    value = getattr(self, 'fname')
    if value is None:
        kwargs['fname'] = None
    else:
        kwargs['fname'] = <packed_value>
  \<close>
  and the routine returns \<^verbatim>\<open>kwargs\<close>, a dict with the field names as keys.
\<close>

definition to_dict_field ::
  "pyrun \<Rightarrow> flags \<Rightarrow> pyval \<Rightarrow> string \<times> pyexpr \<Rightarrow> (string \<times> pyval) list
     \<Rightarrow> exc + (string \<times> pyval) list" where
  "to_dict_field R fl self = (\<lambda>(fname, packed_value) kwargs.
     case py_getattr (env R) self fname of
       Inl e \<Rightarrow> Inl e
     | Inr value \<Rightarrow>
         if value = PNone then Inr (AList.update fname PNone kwargs)
         else (case evaluate R fl [''value'' \<mapsto> value] packed_value of
                 Inl e \<Rightarrow> Inl e
               | Inr v \<Rightarrow> Inr (AList.update fname v kwargs)))"

fun to_dict_fields ::
  "pyrun \<Rightarrow> flags \<Rightarrow> pyval \<Rightarrow> (string \<times> pyexpr) list \<Rightarrow> (string \<times> pyval) list
     \<Rightarrow> exc + (string \<times> pyval) list" where
  "to_dict_fields R fl self [] kwargs = Inr kwargs"
| "to_dict_fields R fl self (fc # fcs) kwargs =
     (case to_dict_field R fl self fc kwargs of
        Inl e \<Rightarrow> Inl e
      | Inr kwargs' \<Rightarrow> to_dict_fields R fl self fcs kwargs')"

definition to_dict :: "pyrun \<Rightarrow> (string \<times> pyexpr) list \<Rightarrow> flags \<Rightarrow> pyval \<Rightarrow> exc + pyval" where
  "to_dict R code fl self =
     (case to_dict_fields R fl self code [] of
        Inl e \<Rightarrow> Inl e
      | Inr kwargs \<Rightarrow> Inr (PDict (map (\<lambda>(k, v). (PStr k, v)) kwargs)))"

text \<open>
  A value lacks \<^verbatim>\<open>get\<close> when the first statement of a block, \<^verbatim>\<open>d.get('fname', MISSING)\<close>,
  raises \<^verbatim>\<open>AttributeError\<close> on it. \<^verbatim>\<open>is_object\<close> tells the objects from the built-in values.
\<close>

definition lacks_get :: "pyrun \<Rightarrow> pyval \<Rightarrow> string \<Rightarrow> bool" where
  "lacks_get R d fname =
     (case py_method (env R) d ''get'' [PStr fname, PMissing] of
        Inl e \<Rightarrow> is_AttributeError e
      | Inr _ \<Rightarrow> False)"

definition is_object :: "pyval \<Rightarrow> bool" where
  "is_object d = (case d of PObj _ _ \<Rightarrow> True | _ \<Rightarrow> False)"

section \<open>Discriminated fields: dispatch by tag\<close>

text \<open>
  Modelled from the spec: the Discriminator Resolver in tag mode. The class
  \<^verbatim>\<open>Discriminator\<close> and the code that compiles a discriminated field are not part of the
  sources; only the test module \<^verbatim>\<open>test_parent_by_field.py\<close> uses them. The definitions of
  this section follow section 4.4 of the specification.

  Modelled from the spec: a candidate type, with its name, the literal value it assigns
  to the tag field (if it assigns one) and its own decode routine.
\<close>

record variant =
  variant_name :: string
  variant_tag :: "pyval option"
  variant_decode :: "pyval \<Rightarrow> exc + pyval"

text \<open>Modelled from the spec: the declared base type with the tree of its subclasses.\<close>

datatype hierarchy = Hierarchy variant "hierarchy list"

text \<open>
  Modelled from the spec: the DiscriminatorSpec of a field in tag mode, the flags
  \<^verbatim>\<open>include_subtypes\<close> and \<^verbatim>\<open>include_supertypes\<close> and the optional custom tagger (subtype to
  tag value). The name of the tag field is an argument of \<^verbatim>\<open>decode_by_tag\<close>.
\<close>

record discriminator =
  include_subtypes :: bool
  include_supertypes :: bool
  variant_tagger_fn :: "(string \<Rightarrow> pyval) option"

text \<open>Modelled from the spec: the field's own declared type.\<close>

fun declared_type :: "hierarchy \<Rightarrow> variant" where
  "declared_type (Hierarchy v subs) = v"

text \<open>Modelled from the spec: "include_subtypes walks the full descendant tree, not just
  direct children, recursively".\<close>

fun with_descendants :: "hierarchy \<Rightarrow> variant list" where
  "with_descendants (Hierarchy v subs) = v # concat (map with_descendants subs)"

fun subtypes :: "hierarchy \<Rightarrow> variant list" where
  "subtypes (Hierarchy v subs) = concat (map with_descendants subs)"

text \<open>
  Modelled from the spec: "each subtype's tag value is either the literal value assigned
  to tag field on that subtype, or the result of variant_tagger_fn(subtype) if supplied
  (applied uniformly to every subtype)".
\<close>

definition tag_value :: "discriminator \<Rightarrow> variant \<Rightarrow> pyval option" where
  "tag_value D v =
     (case variant_tagger_fn D of
        Some tagger \<Rightarrow> Some (tagger (variant_name v))
      | None \<Rightarrow> variant_tag v)"

text \<open>
  Modelled from the spec: the subtypes when \<^verbatim>\<open>include_subtypes\<close> is set, and "if
  include_supertypes is also set, the field's own declared type is included as a
  fallback candidate in the tag map as well".
\<close>

definition tag_candidates :: "discriminator \<Rightarrow> hierarchy \<Rightarrow> variant list" where
  "tag_candidates D h =
     (if include_subtypes D then subtypes h else []) @
     (if include_supertypes D then [declared_type h] else [])"

text \<open>Modelled from the spec: "a mapping from tag value to subtype". A candidate with no
  tag value has no entry.\<close>

definition tag_map :: "discriminator \<Rightarrow> hierarchy \<Rightarrow> (pyval \<times> variant) list" where
  "tag_map D h =
     List.map_filter (\<lambda>v. map_option (\<lambda>t. (t, v)) (tag_value D v)) (tag_candidates D h)"

text \<open>Modelled from the spec: "read the tag field's raw value from the input tree". An
  input that is no dict, or has no such key, has no tag.\<close>

definition read_tag :: "string \<Rightarrow> pyval \<Rightarrow> pyval option" where
  "read_tag tag input = (case input of PDict kvs \<Rightarrow> map_of kvs (PStr tag) | _ \<Rightarrow> None)"

text \<open>
  Modelled from the spec: "look up the mapping; if absent, raise InvalidFieldValue
  ("unknown tag"); if present, decode directly via the matched subtype's own decode
  routine". The error carries the discriminated field, the type named for it, the input
  and the owning class; it has no cause, and the failed lookup is its context.
\<close>

definition unknown_tag :: exc where
  "unknown_tag = Raised ''LookupError'' ''unknown tag''"

definition decode_by_tag ::
  "string \<Rightarrow> discriminator \<Rightarrow> hierarchy \<Rightarrow> string \<Rightarrow> type_ref \<Rightarrow> string \<Rightarrow> pyval \<Rightarrow> exc + pyval" where
  "decode_by_tag tag D h fname ftype cls input =
     (case read_tag tag input of
        None \<Rightarrow> Inl (InvalidFieldValue fname ftype input cls None (Some unknown_tag))
      | Some raw \<Rightarrow>
          (case map_of (tag_map D h) raw of
             None \<Rightarrow> Inl (InvalidFieldValue fname ftype input cls None (Some unknown_tag))
           | Some v \<Rightarrow> variant_decode v input))"

section \<open>Example record types\<close>

text \<open>
  Classes of the test module \<^verbatim>\<open>test_parent_by_field.py\<close>: \<^verbatim>\<open>VariantStr1\<close> declares
  \<^verbatim>\<open>x: str\<close> and \<^verbatim>\<open>type = "str_1"\<close>, its subclass \<^verbatim>\<open>VariantStr12\<close> declares them again
  with \<^verbatim>\<open>type = "str_12"\<close>. \<^verbatim>\<open>cls_Leaf\<close> is a class \<^verbatim>\<open>Leaf(Mixin, VariantStr12)\<close> that
  declares nothing itself.
\<close>

definition anc_VariantStr1 :: ancestor where
  "anc_VariantStr1 =
     \<lparr>anc_is_dataclass = True,
      anc_fields =
        [\<lparr>field_name = ''x'', field_default = PMissing, field_default_factory = PMissing,
          field_metadata = []\<rparr>,
         \<lparr>field_name = ''type'', field_default = PStr ''str_1'',
          field_default_factory = PMissing, field_metadata = []\<rparr>]\<rparr>"

definition anc_BaseVariant :: ancestor where
  "anc_BaseVariant = \<lparr>anc_is_dataclass = True, anc_fields = []\<rparr>"

definition anc_plain :: ancestor where
  "anc_plain = \<lparr>anc_is_dataclass = False, anc_fields = []\<rparr>"

definition cls_VariantStr12 :: pyclass where
  "cls_VariantStr12 =
     \<lparr>cls_name = ''VariantStr12'',
      mro_tail = [anc_VariantStr1, anc_BaseVariant, anc_plain, anc_plain],
      type_hints = [(''x'', TClass OStr), (''type'', TClass OStr)],
      annotations = [''x'', ''type''],
      namespace = [(''type'', NsValue (PStr ''str_12''))],
      init_fields =
        [\<lparr>field_name = ''x'', field_default = PMissing, field_default_factory = PMissing,
          field_metadata = []\<rparr>,
         \<lparr>field_name = ''type'', field_default = PStr ''str_12'',
          field_default_factory = PMissing, field_metadata = []\<rparr>]\<rparr>"



text \<open>
  A run with nothing but the built-in operations: every external name, method and
  attribute is missing, objects are hashed and compared by identity, and \<^verbatim>\<open>int\<close> reads a
  string that is an optional sign and decimal digits (the examples pass it no other
  string). \<^verbatim>\<open>P0\<close> is that run with the expressions evaluated by \<^verbatim>\<open>eval_expr\<close>.
\<close>

definition is_digit :: "char \<Rightarrow> bool" where
  "is_digit c = (48 \<le> (of_char c :: nat) \<and> (of_char c :: nat) \<le> 57)"

definition digit_value :: "char \<Rightarrow> nat" where
  "digit_value c = of_char c - 48"

definition nat_of_digits :: "string \<Rightarrow> nat" where
  "nat_of_digits ds = fold (\<lambda>c n. 10 * n + digit_value c) ds 0"

definition parse_decimal :: "string \<Rightarrow> int option" where
  "parse_decimal s =
     (let (neg, ds) = (case s of
                         c # r \<Rightarrow> if c = CHR ''-'' then (True, r)
                                  else if c = CHR ''+'' then (False, r) else (False, s)
                       | [] \<Rightarrow> (False, s))
      in if ds \<noteq> [] \<and> list_all is_digit ds
         then Some (if neg then - int (nat_of_digits ds) else int (nat_of_digits ds))
         else None)"

definition env0 :: pyenv where
  "env0 = \<lparr>call_ext = (\<lambda>f args. Inl (Raised ''NameError'' f)),
         call_kw_ext = (\<lambda>f k v. Inl (Raised ''NameError'' f)),
         call_obj = (\<lambda>f args. Inl (TypeError ''object is not callable'')),
         method_ext = (\<lambda>v m args. Inl (AttributeError m)),
         attr_ext = (\<lambda>v a. Inl (AttributeError a)),
         iter_ext = (\<lambda>v. ([], Some (TypeError ''object is not iterable''))),
         hash_ext = (\<lambda>v. None),
         key_eq_ext = (\<lambda>a b. Inr (a = b)),
         field_type_ext = (\<lambda>s f. Inl (Raised ''KeyError'' f)),
         int_of_str = parse_decimal,
         key_first = True\<rparr>"

definition P0 :: pyrun where
  "P0 = python_run env0"

definition no_flags :: flags where
  "no_flags = (\<lambda>f. False)"

text \<open>
  \<^verbatim>\<open>Foo1\<close> declares \<^verbatim>\<open>x1: int\<close> and its subclass \<^verbatim>\<open>Foo2\<close> adds \<^verbatim>\<open>x2: int\<close>; neither field has a
  default. \<^verbatim>\<open>BaseVariant\<close> declares no field. The lists \<^verbatim>\<open>code_...\<close> are what \<^verbatim>\<open>add_from_dict\<close>
  compiles for the classes (lemmas \<^verbatim>\<open>add_from_dict_...\<close>).
\<close>

definition dc_required :: "string \<Rightarrow> dc_field" where
  "dc_required name =
     \<lparr>field_name = name, field_default = PMissing, field_default_factory = PMissing,
      field_metadata = []\<rparr>"

definition anc_Foo1 :: ancestor where
  "anc_Foo1 = \<lparr>anc_is_dataclass = True, anc_fields = [dc_required ''x1'']\<rparr>"

definition cls_Foo2 :: pyclass where
  "cls_Foo2 =
     \<lparr>cls_name = ''Foo2'',
      mro_tail = [anc_Foo1, anc_plain, anc_plain],
      type_hints = [(''x1'', TClass OInt), (''x2'', TClass OInt)],
      annotations = [''x2''],
      namespace = [],
      init_fields = [dc_required ''x1'', dc_required ''x2'']\<rparr>"

definition code_Foo2 :: "field_code list" where
  "code_Foo2 =
     [\<lparr>fc_name = ''x1'', fc_required = True, fc_type = TypeRef (TClass OInt),
       fc_expr = Call ''int'' [Var ''value'']\<rparr>,
      \<lparr>fc_name = ''x2'', fc_required = True, fc_type = TypeRef (TClass OInt),
       fc_expr = Call ''int'' [Var ''value'']\<rparr>]"

definition code_VariantStr12 :: "field_code list" where
  "code_VariantStr12 =
     [\<lparr>fc_name = ''x'', fc_required = True, fc_type = TypeRef (TClass OStr),
       fc_expr = Var ''value''\<rparr>,
      \<lparr>fc_name = ''type'', fc_required = False, fc_type = TypeRef (TClass OStr),
       fc_expr = Var ''value''\<rparr>]"

definition cls_BaseVariant :: pyclass where
  "cls_BaseVariant =
     \<lparr>cls_name = ''BaseVariant'', mro_tail = [anc_plain, anc_plain], type_hints = [],
      annotations = [], namespace = [], init_fields = []\<rparr>"

text \<open>
  \<^verbatim>\<open>Base\<close> declares \<^verbatim>\<open>x: int = 3\<close> and its subclass \<^verbatim>\<open>Derived\<close> declares \<^verbatim>\<open>x: int\<close> again,
  without a value: the body of \<^verbatim>\<open>Derived\<close> binds no name \<^verbatim>\<open>x\<close>, so its \<^verbatim>\<open>__dict__\<close> has no
  such entry. The dataclass decorator reads the default of a field with
  \<^verbatim>\<open>getattr(cls, name, MISSING)\<close>, which finds the class attribute \<^verbatim>\<open>Base.x = 3\<close>: the field
  \<^verbatim>\<open>x\<close> of \<^verbatim>\<open>Derived\<close> has the default 3, and \<^verbatim>\<open>Derived()\<close> is \<^verbatim>\<open>Derived(x=3)\<close>.
\<close>

definition dc_default :: "string \<Rightarrow> pyval \<Rightarrow> dc_field" where
  "dc_default name v =
     \<lparr>field_name = name, field_default = v, field_default_factory = PMissing,
      field_metadata = []\<rparr>"

definition anc_Base :: ancestor where
  "anc_Base = \<lparr>anc_is_dataclass = True, anc_fields = [dc_default ''x'' (PInt 3)]\<rparr>"

definition cls_Derived :: pyclass where
  "cls_Derived =
     \<lparr>cls_name = ''Derived'',
      mro_tail = [anc_Base, anc_plain, anc_plain],
      type_hints = [(''x'', TClass OInt)],
      annotations = [''x''],
      namespace = [],
      init_fields = [dc_default ''x'' (PInt 3)]\<rparr>"

definition code_Derived :: "field_code list" where
  "code_Derived =
     [\<lparr>fc_name = ''x'', fc_required = True, fc_type = TypeRef (TClass OInt),
       fc_expr = Call ''int'' [Var ''value'']\<rparr>]"

text \<open>
  A run in which \<^verbatim>\<open>int\<close> of an object is interrupted from the keyboard: the call raises
  \<^verbatim>\<open>KeyboardInterrupt\<close>.
\<close>

definition env_interrupt :: pyenv where
  "env_interrupt =
     env0\<lparr>call_ext := (\<lambda>f args. Inl (BaseRaised ''KeyboardInterrupt'' []))\<rparr>"

definition P_interrupt :: pyrun where
  "P_interrupt = python_run env_interrupt"

text \<open>
  \<^verbatim>\<open>Box\<close> declares \<^verbatim>\<open>x: T\<close> for a type variable \<^verbatim>\<open>T\<close>; \<^verbatim>\<open>Bag\<close> declares \<^verbatim>\<open>n: int\<close> and
  \<^verbatim>\<open>items: list\<close>.
\<close>

definition cls_Box :: pyclass where
  "cls_Box =
     \<lparr>cls_name = ''Box'', mro_tail = [anc_plain, anc_plain],
      type_hints = [(''x'', TTypeVar ''T'')], annotations = [''x''], namespace = [],
      init_fields = [dc_required ''x'']\<rparr>"

definition cls_Bag :: pyclass where
  "cls_Bag =
     \<lparr>cls_name = ''Bag'', mro_tail = [anc_plain, anc_plain],
      type_hints = [(''n'', TClass OInt), (''items'', TBare BList)],
      annotations = [''n'', ''items''], namespace = [],
      init_fields = [dc_required ''n'', dc_required ''items'']\<rparr>"

text \<open>
  The classes of the test \<^verbatim>\<open>test_by_field_with_custom_variant_tagger\<close>: a base class and
  two subclasses, none with a field, discriminated by the field \<^verbatim>\<open>type\<close> with the tagger
  \<^verbatim>\<open>lambda cls: cls.__name__.lower()\<close>. Each decodes by its own \<^verbatim>\<open>from_dict\<close>.
\<close>

definition lower_char :: "char \<Rightarrow> char" where
  "lower_char c =
     (if 65 \<le> (of_char c :: nat) \<and> (of_char c :: nat) \<le> 90
      then char_of ((of_char c :: nat) + 32) else c)"

definition lower :: "string \<Rightarrow> string" where
  "lower s = map lower_char s"

definition cls_Sub1 :: pyclass where
  "cls_Sub1 =
     \<lparr>cls_name = ''VariantWitCustomTaggerSub1'', mro_tail = [anc_BaseVariant, anc_plain, anc_plain],
      type_hints = [], annotations = [], namespace = [], init_fields = []\<rparr>"

definition cls_Sub2 :: pyclass where
  "cls_Sub2 =
     \<lparr>cls_name = ''VariantWitCustomTaggerSub2'', mro_tail = [anc_BaseVariant, anc_plain, anc_plain],
      type_hints = [], annotations = [], namespace = [], init_fields = []\<rparr>"

definition cls_BaseTagger :: pyclass where
  "cls_BaseTagger =
     \<lparr>cls_name = ''BaseVariantWitCustomTagger'', mro_tail = [anc_plain, anc_plain],
      type_hints = [], annotations = [], namespace = [], init_fields = []\<rparr>"

definition variant_of :: "pyclass \<Rightarrow> variant" where
  "variant_of cls =
     \<lparr>variant_name = cls_name cls, variant_tag = None,
      variant_decode = from_dict P0 cls [] no_flags\<rparr>"

definition tagger_hierarchy :: hierarchy where
  "tagger_hierarchy =
     Hierarchy (variant_of cls_BaseTagger)
       [Hierarchy (variant_of cls_Sub1) [], Hierarchy (variant_of cls_Sub2) []]"

definition tagger_discriminator :: discriminator where
  "tagger_discriminator =
     \<lparr>include_subtypes = True, include_supertypes = False,
      variant_tagger_fn = Some (\<lambda>name. PStr (lower name))\<rparr>"

lemma map_result_Inr_length:
  "map_result f xs = Inr ys \<Longrightarrow> length ys = length xs"
  by (induction xs arbitrary: ys) (auto split: sum.splits)

lemma map_result_Inr_nth:
  "map_result f xs = Inr ys \<Longrightarrow> i < length xs \<Longrightarrow> f (xs ! i) = Inr (ys ! i)"
proof (induction xs arbitrary: ys i)
  case Nil
  then show ?case by simp
next
  case (Cons x xs)
  then show ?case by (cases i) (auto split: sum.splits)
qed

lemma map_result_Inl_mem:
  "x \<in> set xs \<Longrightarrow> f x = Inl e \<Longrightarrow> \<exists>e'. map_result f xs = Inl e'"
  by (induction xs) (auto split: sum.splits)

lemma add_from_dict_nth:
  assumes "add_from_dict cls = Inr code" and "i < length code"
    and "field_types cls ! i = (fname, ftype)"
  shows "\<exists>dv ex. defaults cls fname = Some dv
           \<and> unpack_field_value fname ftype (cls_name cls) ''value'' (metadatas cls fname) = Inr ex
           \<and> code ! i = \<lparr>fc_name = fname, fc_required = (dv = PMissing),
                          fc_type = field_type_ref ftype, fc_expr = ex\<rparr>"
proof -
  have len: "length code = length (field_types cls)"
    using assms(1) by (simp add: add_from_dict_def map_result_Inr_length)
  have "add_from_dict_field cls (field_types cls ! i) = Inr (code ! i)"
    using assms(1,2) len by (simp add: add_from_dict_def map_result_Inr_nth)
  then show ?thesis
    using assms(3) by (auto simp: add_from_dict_field_def split: option.splits sum.splits)
qed

lemma from_dict_fields_append:
  "from_dict_fields P fl cn d (xs @ ys) k =
     (case from_dict_fields P fl cn d xs k of
        Inl e \<Rightarrow> Inl e
      | Inr k' \<Rightarrow> from_dict_fields P fl cn d ys k')"
  by (induction xs arbitrary: k) (auto split: sum.splits)

lemma from_dict_fields_split:
  assumes "i < length code" and "from_dict_fields P fl cn d (take i code) [] = Inr k"
  shows "from_dict_fields P fl cn d code [] =
     (case from_dict_field P fl cn d (code ! i) k of
        Inl e \<Rightarrow> Inl e
      | Inr k' \<Rightarrow> from_dict_fields P fl cn d (drop (Suc i) code) k')"
proof -
  have "code = take i code @ code ! i # drop (Suc i) code"
    using assms(1) by (simp add: id_take_nth_drop)
  then have "from_dict_fields P fl cn d code [] =
      from_dict_fields P fl cn d (take i code @ code ! i # drop (Suc i) code) []"
    by simp
  also have "\<dots> = (case from_dict_field P fl cn d (code ! i) k of
        Inl e \<Rightarrow> Inl e
      | Inr k' \<Rightarrow> from_dict_fields P fl cn d (drop (Suc i) code) k')"
    using assms(2) by (simp add: from_dict_fields_append)
  finally show ?thesis .
qed

lemma dict_get:
  "py_method P (PDict kvs) ''get'' [PStr k, dflt] =
     Inr (case map_of kvs (PStr k) of Some x \<Rightarrow> x | None \<Rightarrow> dflt)"
  by (simp add: py_method_def)

lemma get_field_types_distinct: "distinct (map fst (get_field_types cls r))"
proof -
  have "distinct (map fst acc) \<Longrightarrow>
        distinct (map fst (fold (\<lambda>(fname, ftype) fields.
             if is_class_var ftype \<or> is_init_var ftype then fields
             else if r \<or> fname \<in> set (annotations cls)
                  then AList.update fname ftype fields
                  else fields) hs acc))" for hs acc
    by (induction hs arbitrary: acc) (auto simp: distinct_update)
  then show ?thesis by (simp add: get_field_types_def)
qed

lemma add_from_dict_names:
  assumes "add_from_dict cls = Inr code"
  shows "map fc_name code = map fst (field_types cls)"
proof (rule nth_equalityI)
  show len: "length (map fc_name code) = length (map fst (field_types cls))"
    using assms by (simp add: add_from_dict_def map_result_Inr_length)
  fix i assume "i < length (map fc_name code)"
  then have i: "i < length code" by simp
  obtain fname ftype where ft: "field_types cls ! i = (fname, ftype)" by force
  from add_from_dict_nth [OF assms i ft] have "fc_name (code ! i) = fname" by auto
  then show "map fc_name code ! i = map fst (field_types cls) ! i"
    using i len ft by simp
qed

lemma add_from_dict_distinct:
  "add_from_dict cls = Inr code \<Longrightarrow> distinct (map fc_name code)"
  by (simp add: add_from_dict_names field_types_def get_field_types_distinct)

lemma from_dict_field_other:
  "from_dict_field P fl cn d fc k = Inr k' \<Longrightarrow> n \<noteq> fc_name fc \<Longrightarrow> map_of k' n = map_of k n"
  by (auto simp: from_dict_field_def try_unpack_def update_conv' split: sum.splits if_splits)

lemma from_dict_fields_other:
  "from_dict_fields P fl cn d fcs k = Inr k' \<Longrightarrow> n \<notin> fc_name ` set fcs \<Longrightarrow>
   map_of k' n = map_of k n"
proof (induction fcs arbitrary: k)
  case Nil
  then show ?case by simp
next
  case (Cons fc fcs)
  then obtain k1 where 1: "from_dict_field P fl cn d fc k = Inr k1"
      and 2: "from_dict_fields P fl cn d fcs k1 = Inr k'"
    by (auto split: sum.splits)
  have "map_of k' n = map_of k1 n" using Cons.IH [OF 2] Cons.prems(2) by simp
  also have "\<dots> = map_of k n" using from_dict_field_other [OF 1] Cons.prems(2) by simp
  finally show ?case .
qed

lemma init_args_lookup:
  "map_result (init_arg P kwargs) fs = Inr attrs \<Longrightarrow> map_of kwargs n = Some v \<Longrightarrow>
   n \<in> field_name ` set fs \<Longrightarrow> map_of attrs n = Some v"
proof (induction fs arbitrary: attrs)
  case Nil
  then show ?case by simp
next
  case (Cons f fs)
  then obtain a as where a: "init_arg P kwargs f = Inr a"
      and as: "map_result (init_arg P kwargs) fs = Inr as" and attrs: "attrs = a # as"
    by (auto split: sum.splits)
  show ?case
  proof (cases "field_name f = n")
    case True
    then have "a = (n, v)" using a Cons.prems(2) by (simp add: init_arg_def)
    then show ?thesis using attrs by simp
  next
    case False
    then have "fst a \<noteq> n" using a by (auto simp: init_arg_def split: option.splits if_splits sum.splits)
    moreover have "map_of as n = Some v"
      using Cons.IH [OF as Cons.prems(2)] Cons.prems(3) False by auto
    ultimately show ?thesis using attrs by (cases a) simp
  qed
qed

lemma init_args_default:
  "map_result (init_arg P kwargs) fs = Inr attrs \<Longrightarrow> map_of kwargs (field_name f) = None \<Longrightarrow>
   f \<in> set fs \<Longrightarrow> distinct (map field_name fs) \<Longrightarrow> init_arg P [] f = Inr (field_name f, v) \<Longrightarrow>
   map_of attrs (field_name f) = Some v"
proof (induction fs arbitrary: attrs)
  case Nil
  then show ?case by simp
next
  case (Cons g fs)
  then obtain a as where a: "init_arg P kwargs g = Inr a"
      and as: "map_result (init_arg P kwargs) fs = Inr as" and attrs: "attrs = a # as"
    by (auto split: sum.splits)
  have fst_a: "fst a = field_name g"
    using a by (auto simp: init_arg_def split: option.splits if_splits sum.splits)
  show ?case
  proof (cases "g = f")
    case True
    have "init_arg P kwargs f = init_arg P [] f"
      using Cons.prems(2) by (simp add: init_arg_def)
    then have "a = (field_name f, v)" using a True Cons.prems(5) by simp
    then show ?thesis using attrs by simp
  next
    case False
    then have f: "f \<in> set fs" using Cons.prems(3) by simp
    then have "field_name g \<noteq> field_name f" using Cons.prems(4) by auto
    moreover have "map_of as (field_name f) = Some v"
      using Cons.IH [OF as Cons.prems(2) f _ Cons.prems(5)] Cons.prems(4) by simp
    ultimately show ?thesis using attrs fst_a by (cases a) simp
  qed
qed

lemma dataclass_init_Inr:
  assumes "dataclass_init P cls kwargs = Inr inst"
  shows "\<exists>attrs. inst = PObj (cls_name cls) attrs
           \<and> map_result (init_arg P kwargs) (init_fields cls) = Inr attrs
           \<and> fst ` set kwargs \<subseteq> field_name ` set (init_fields cls)"
  using assms
  by (auto simp: dataclass_init_def list_ex_iff split: if_splits sum.splits)

lemma pack_value_union:
  "\<not> is_optional args \<Longrightarrow> pack_value fname (TUnion args) parent vn = Inl unions_msg"
proof (cases args)
  case Nil
  then show ?thesis by (simp add: unions_msg_def)
next
  case (Cons a r1)
  assume n: "\<not> is_optional args"
  show ?thesis
  proof (cases r1)
    case Nil
    then show ?thesis using Cons by (simp add: unions_msg_def)
  next
    case (Cons b r2)
    show ?thesis
    proof (cases r2)
      case Nil
      then show ?thesis
        using n \<open>args = a # r1\<close> \<open>r1 = b # r2\<close> by (simp add: unions_msg_def is_optional_def)
    next
      case (Cons c r3)
      then show ?thesis
        using \<open>args = a # r1\<close> \<open>r1 = b # r2\<close> by (simp add: unions_msg_def)
    qed
  qed
qed

lemma unpack_field_value_union:
  "\<not> is_optional args \<Longrightarrow>
   unpack_field_value fname (TUnion args) parent vn md = Inl unions_msg"
proof (cases args)
  case Nil
  then show ?thesis by (simp add: unions_msg_def)
next
  case (Cons a r1)
  assume n: "\<not> is_optional args"
  show ?thesis
  proof (cases r1)
    case Nil
    then show ?thesis using Cons by (simp add: unions_msg_def)
  next
    case (Cons b r2)
    show ?thesis
    proof (cases r2)
      case Nil
      then show ?thesis
        using n \<open>args = a # r1\<close> \<open>r1 = b # r2\<close> by (simp add: unions_msg_def is_optional_def)
    next
      case (Cons c r3)
      then show ?thesis
        using \<open>args = a # r1\<close> \<open>r1 = b # r2\<close> by (simp add: unions_msg_def)
    qed
  qed
qed

lemma shape_error_pack:
  "shape_error fname ftype parent = Some err \<Longrightarrow> pack_value fname ftype parent vn = Inl err"
  by (cases ftype)
    (auto simp: shape_error_def typevars_msg_def anystr_msg_def pack_value_union
      split: if_splits)

lemma shape_error_unpack:
  "shape_error fname ftype parent = Some err \<Longrightarrow>
   unpack_field_value fname ftype parent vn md = Inl err"
  by (cases ftype)
    (auto simp: shape_error_def typevars_msg_def anystr_msg_def unpack_field_value_union
      split: if_splits)

lemma map_result_first_error:
  "i < length xs \<Longrightarrow> map_result f (take i xs) = Inr pre \<Longrightarrow> f (xs ! i) = Inl e \<Longrightarrow>
   map_result f xs = Inl e"
proof (induction xs arbitrary: i pre)
  case Nil
  then show ?case by simp
next
  case (Cons x xs)
  show ?case
  proof (cases i)
    case 0
    then show ?thesis using Cons.prems by simp
  next
    case (Suc j)
    then obtain y ys where "f x = Inr y" "map_result f (take j xs) = Inr ys"
      using Cons.prems(2) by (auto split: sum.splits)
    moreover have "map_result f xs = Inl e"
      using Cons.IH [of j] Cons.prems Suc calculation by simp
    ultimately show ?thesis by simp
  qed
qed

lemma set_map_filter_pairs:
  "set (List.map_filter (\<lambda>v. map_option (\<lambda>t. (t, v)) (g v)) xs)
     = {(t, v). v \<in> set xs \<and> g v = Some t}"
proof (induction xs)
  case Nil
  then show ?case by (simp add: map_filter_simps)
next
  case (Cons x xs)
  then show ?case by (cases "g x") (auto simp: map_filter_simps)
qed

lemma tag_map_set:
  "set (tag_map D h) = {(t, v). v \<in> set (tag_candidates D h) \<and> tag_value D v = Some t}"
  by (simp add: tag_map_def set_map_filter_pairs)

lemma map_of_unique:
  assumes "(k, v) \<in> set al" and "\<And>v'. (k, v') \<in> set al \<Longrightarrow> v' = v"
  shows "map_of al k = Some v"
proof -
  obtain v' where v': "map_of al k = Some v'"
    using assms(1) weak_map_of_SomeI by fastforce
  then have "(k, v') \<in> set al" by (rule map_of_SomeD)
  then have "v' = v" by (rule assms(2))
  then show ?thesis using v' by simp
qed

lemma field_types_Foo2:
  "field_types cls_Foo2 = [(''x1'', TClass OInt), (''x2'', TClass OInt)]"
  by (simp add: field_types_def get_field_types_def cls_Foo2_def is_class_var_def
      is_init_var_def)

lemma defaults_Foo2:
  "defaults cls_Foo2 ''x1'' = Some PMissing" "defaults cls_Foo2 ''x2'' = Some PMissing"
  by (simp_all add: defaults_def get_field_types_def cls_Foo2_def is_class_var_def
      is_init_var_def anc_Foo1_def anc_plain_def ancestor_defaults_def dc_required_def
      field_default_value_def own_default_def)

lemma metadatas_Foo2:
  "metadatas cls_Foo2 n = None"
  by (simp add: metadatas_def get_field_types_def cls_Foo2_def is_class_var_def
      is_init_var_def)

lemma cls_Foo2_simps:
  "cls_name cls_Foo2 = ''Foo2''"
  "init_fields cls_Foo2 = [dc_required ''x1'', dc_required ''x2'']"
  by (simp_all add: cls_Foo2_def)

lemma add_from_dict_Foo2: "add_from_dict cls_Foo2 = Inr code_Foo2"
  by (simp add: add_from_dict_def field_types_Foo2 add_from_dict_field_def defaults_Foo2
      metadatas_Foo2 unpack_by_origin_def field_type_ref_def code_Foo2_def)

lemma python_run_simps [simp]:
  "env (python_run P) = P"
  "evaluate (python_run P) = eval_expr P"
  by (simp_all add: python_run_def)

lemma P0_simps [simp]:
  "env P0 = env0"
  "evaluate P0 = eval_expr env0"
  by (simp_all add: P0_def)

lemma env0_simps:
  "call_ext env0 = (\<lambda>f args. Inl (Raised ''NameError'' f))"
  "call_obj env0 = (\<lambda>f args. Inl (TypeError ''object is not callable''))"
  "method_ext env0 = (\<lambda>v m args. Inl (AttributeError m))"
  "attr_ext env0 = (\<lambda>v a. Inl (AttributeError a))"
  "iter_ext env0 = (\<lambda>v. ([], Some (TypeError ''object is not iterable'')))"
  "hash_ext env0 = (\<lambda>v. None)"
  "int_of_str env0 = parse_decimal"
  "key_first env0 = True"
  by (simp_all add: env0_def)

lemma from_dict_Foo2_ok:
  "from_dict P0 cls_Foo2 code_Foo2 no_flags
     (PDict [(PStr ''x1'', PInt 1), (PStr ''x2'', PStr ''-20'')]) =
   Inr (PObj ''Foo2'' [(''x1'', PInt 1), (''x2'', PInt (- 20))])"
  by (simp add: from_dict_def code_Foo2_def from_dict_field_def dict_get try_unpack_def
      py_call_def py_int_def env0_simps cls_Foo2_simps dataclass_init_def init_arg_def dc_required_def
      parse_decimal_def is_digit_def nat_of_digits_def digit_value_def)

lemma cls_VariantStr12_simps:
  "cls_name cls_VariantStr12 = ''VariantStr12''"
  "init_fields cls_VariantStr12 =
     [\<lparr>field_name = ''x'', field_default = PMissing, field_default_factory = PMissing,
          field_metadata = []\<rparr>,
      \<lparr>field_name = ''type'', field_default = PStr ''str_12'',
          field_default_factory = PMissing, field_metadata = []\<rparr>]"
  by (simp_all add: cls_VariantStr12_def)

lemma field_types_VariantStr12:
  "field_types cls_VariantStr12 = [(''x'', TClass OStr), (''type'', TClass OStr)]"
  by (simp add: field_types_def get_field_types_def cls_VariantStr12_def is_class_var_def
      is_init_var_def)

lemma defaults_VariantStr12:
  "defaults cls_VariantStr12 ''x'' = Some PMissing"
  "defaults cls_VariantStr12 ''type'' = Some (PStr ''str_12'')"
  by (simp_all add: defaults_def get_field_types_def cls_VariantStr12_def is_class_var_def
      is_init_var_def anc_VariantStr1_def anc_BaseVariant_def anc_plain_def
      ancestor_defaults_def field_default_value_def own_default_def)

lemma metadatas_VariantStr12: "metadatas cls_VariantStr12 n = None"
  by (simp add: metadatas_def get_field_types_def cls_VariantStr12_def is_class_var_def
      is_init_var_def)

lemma add_from_dict_VariantStr12: "add_from_dict cls_VariantStr12 = Inr code_VariantStr12"
  by (simp add: add_from_dict_def field_types_VariantStr12 add_from_dict_field_def
      defaults_VariantStr12 metadatas_VariantStr12 unpack_by_origin_def field_type_ref_def
      code_VariantStr12_def)

lemma field_types_Box: "field_types cls_Box = [(''x'', TTypeVar ''T'')]"
  by (simp add: field_types_def get_field_types_def cls_Box_def is_class_var_def
      is_init_var_def)

lemma defaults_Box: "defaults cls_Box ''x'' = Some PMissing"
  by (simp add: defaults_def get_field_types_def cls_Box_def is_class_var_def
      is_init_var_def anc_plain_def ancestor_defaults_def own_default_def)

lemma field_types_Bag: "field_types cls_Bag = [(''n'', TClass OInt), (''items'', TBare BList)]"
  by (simp add: field_types_def get_field_types_def cls_Bag_def is_class_var_def
      is_init_var_def)

lemma defaults_Bag:
  "defaults cls_Bag ''n'' = Some PMissing" "defaults cls_Bag ''items'' = Some PMissing"
  by (simp_all add: defaults_def get_field_types_def cls_Bag_def is_class_var_def
      is_init_var_def anc_plain_def ancestor_defaults_def own_default_def)

lemma metadatas_Bag: "metadatas cls_Bag n = None"
  by (simp add: metadatas_def get_field_types_def cls_Bag_def is_class_var_def
      is_init_var_def)

lemma cls_names: "cls_name cls_Box = ''Box''" "cls_name cls_Bag = ''Bag''"
  by (simp_all add: cls_Box_def cls_Bag_def)

lemma lower_examples:
  "lower ''VariantWitCustomTaggerSub1'' = ''variantwitcustomtaggersub1''"
  "lower ''VariantWitCustomTaggerSub2'' = ''variantwitcustomtaggersub2''"
  by code_simp+

lemma field_types_Derived: "field_types cls_Derived = [(''x'', TClass OInt)]"
  by (simp add: field_types_def get_field_types_def cls_Derived_def is_class_var_def
      is_init_var_def)

lemma defaults_Derived: "defaults cls_Derived ''x'' = Some PMissing"
  by (simp add: defaults_def get_field_types_def cls_Derived_def is_class_var_def
      is_init_var_def anc_Base_def anc_plain_def ancestor_defaults_def dc_default_def
      field_default_value_def own_default_def)

lemma metadatas_Derived: "metadatas cls_Derived n = None"
  by (simp add: metadatas_def get_field_types_def cls_Derived_def is_class_var_def
      is_init_var_def)

lemma cls_Derived_simps:
  "cls_name cls_Derived = ''Derived''"
  "init_fields cls_Derived = [dc_default ''x'' (PInt 3)]"
  by (simp_all add: cls_Derived_def)

lemma add_from_dict_Derived: "add_from_dict cls_Derived = Inr code_Derived"
  by (simp add: add_from_dict_def field_types_Derived add_from_dict_field_def defaults_Derived
      metadatas_Derived unpack_by_origin_def field_type_ref_def code_Derived_def)

lemma P_interrupt_simps [simp]:
  "env P_interrupt = env_interrupt"
  "evaluate P_interrupt = eval_expr env_interrupt"
  by (simp_all add: P_interrupt_def)

lemma env_interrupt_simps:
  "call_ext env_interrupt = (\<lambda>f args. Inl (BaseRaised ''KeyboardInterrupt'' []))"
  by (simp add: env_interrupt_def)
section \<open>Import bookkeeping is idempotent\<close>

lemma with_indent_add_line:
  "with_indent (add_line l) b =
     b\<lparr>lines := lines b @ [current_indent b @ replicate 4 (CHR '' '') @ l]\<rparr>"
  by (simp add: with_indent_def add_line_def indent_enter_def indent_exit_def)

lemma ensure_module_imported_known:
  "module \<in> modules b \<Longrightarrow> ensure_module_imported module b = b"
  by (simp add: ensure_module_imported_def)

lemma ensure_module_imported_registers:
  "module \<in> modules (ensure_module_imported module b)"
  by (simp add: ensure_module_imported_def Let_def with_indent_add_line add_line_def)

lemma ensure_module_imported_modules_mono:
  "modules b \<subseteq> modules (ensure_module_imported module b)"
  by (auto simp: ensure_module_imported_def Let_def with_indent_add_line add_line_def)

lemma ensure_module_imported_root_registered:
  "root_module module \<in> globals (ensure_module_imported module b) \<or> module \<in> modules b"
  by (simp add: ensure_module_imported_def Let_def with_indent_add_line add_line_def)

lemma ensure_module_imported_globals_mono:
  "globals b \<subseteq> globals (ensure_module_imported module b)"
  by (auto simp: ensure_module_imported_def Let_def with_indent_add_line add_line_def)

lemma ensure_module_imported_indent:
  "current_indent (ensure_module_imported module b) = current_indent b"
  by (simp add: ensure_module_imported_def Let_def with_indent_add_line add_line_def)

lemma ensure_module_imported_lines:
  "lines (ensure_module_imported module b) =
     lines b @
     (if module \<in> modules b then []
      else [current_indent b @ import_guard_line module,
            current_indent b @ replicate 4 (CHR '' '') @ import_line module] @
           (if root_module module \<in> globals b then []
            else [current_indent b @ ''else:'',
                  current_indent b @ replicate 4 (CHR '' '') @ global_line (root_module module)]))"
  by (simp add: ensure_module_imported_def Let_def with_indent_add_line add_line_def)

lemma fold_ensure_modules_mono:
  "modules b \<subseteq> modules (fold ensure_module_imported ms b)"
proof (induction ms arbitrary: b)
  case Nil
  show ?case by simp
next
  case (Cons m ms)
  have "modules b \<subseteq> modules (ensure_module_imported m b)"
    by (rule ensure_module_imported_modules_mono)
  also have "\<dots> \<subseteq> modules (fold ensure_module_imported ms (ensure_module_imported m b))"
    by (rule Cons.IH)
  finally show ?case by simp
qed

lemma line_distinct:
  "i @ import_guard_line m \<noteq> i @ replicate 4 (CHR '' '') @ global_line r"
  "i @ replicate 4 (CHR '' '') @ import_line m \<noteq> i @ replicate 4 (CHR '' '') @ global_line r"
  "i @ ''else:'' \<noteq> i @ replicate 4 (CHR '' '') @ global_line r"
  by (simp_all add: import_guard_line_def import_line_def global_line_def numeral_eq_Suc)

text \<open>
  Claim C8. Registering a module for the generated code is idempotent. A second call of
  \<^verbatim>\<open>ensure_module_imported\<close> with the same name changes nothing (no line is added),
  also when other modules were registered in between; and when two modules share a root,
  the two registrations together add the line \<^verbatim>\<open>global <root>\<close> at most once.
\<close>

theorem ensure_module_imported_idempotent:
  "ensure_module_imported m (ensure_module_imported m b) = ensure_module_imported m b
   \<and> ensure_module_imported m (fold ensure_module_imported ms (ensure_module_imported m b))
       = fold ensure_module_imported ms (ensure_module_imported m b)
   \<and> (root_module m1 = root_module m2 \<longrightarrow>
        count_list (added_lines b (ensure_module_imported m2 (ensure_module_imported m1 b)))
          (current_indent b @ replicate 4 (CHR '' '') @ global_line (root_module m1)) \<le> 1)"
proof (intro conjI impI)
  show "ensure_module_imported m (ensure_module_imported m b) = ensure_module_imported m b"
    by (rule ensure_module_imported_known) (rule ensure_module_imported_registers)
  have "m \<in> modules (ensure_module_imported m b)"
    by (rule ensure_module_imported_registers)
  then have "m \<in> modules (fold ensure_module_imported ms (ensure_module_imported m b))"
    using fold_ensure_modules_mono by blast
  then show "ensure_module_imported m (fold ensure_module_imported ms (ensure_module_imported m b))
       = fold ensure_module_imported ms (ensure_module_imported m b)"
    by (rule ensure_module_imported_known)
next
  assume r: "root_module m1 = root_module m2"
  let ?b1 = "ensure_module_imported m1 b"
  have g: "m1 \<notin> modules b \<Longrightarrow> root_module m2 \<in> globals ?b1"
    using ensure_module_imported_root_registered [of m1 b] r by simp
  have l2: "lines (ensure_module_imported m2 ?b1) = lines ?b1 @
     (if m2 \<in> modules ?b1 then []
      else [current_indent b @ import_guard_line m2,
            current_indent b @ replicate 4 (CHR '' '') @ import_line m2] @
           (if root_module m2 \<in> globals ?b1 then []
            else [current_indent b @ ''else:'',
                  current_indent b @ replicate 4 (CHR '' '') @ global_line (root_module m2)]))"
    by (simp add: ensure_module_imported_lines [of m2] ensure_module_imported_indent)
  show "count_list (added_lines b (ensure_module_imported m2 ?b1))
          (current_indent b @ replicate 4 (CHR '' '') @ global_line (root_module m1)) \<le> 1"
  proof (cases "m1 \<in> modules b")
    case True
    then have "?b1 = b" by (rule ensure_module_imported_known)
    then show ?thesis
      using line_distinct [where i = "current_indent b" and r = "root_module m1"]
      by (simp add: added_lines_def ensure_module_imported_lines r)
  next
    case False
    then show ?thesis
      using g line_distinct [where i = "current_indent b" and r = "root_module m1"]
      by (simp add: added_lines_def l2 ensure_module_imported_lines [of m1] r)
  qed
qed

text \<open>
  The theorem at \<^verbatim>\<open>os.path\<close> and \<^verbatim>\<open>os.errno\<close>, registered on a fresh builder: the six
  lines below are what the two calls emit, with one \<^verbatim>\<open>global os\<close>.
\<close>

theorem ensure_module_imported_idempotent_witness:
  "root_module ''os.path'' = root_module ''os.errno''
   \<and> count_list
        (added_lines (reset {''datetime''})
           (ensure_module_imported ''os.errno''
              (ensure_module_imported ''os.path'' (reset {''datetime''}))))
        (replicate 4 (CHR '' '') @ global_line ''os'') = 1
   \<and> lines (ensure_module_imported ''os.errno''
              (ensure_module_imported ''os.path'' (reset {''datetime''}))) =
       [''if '' @ [CHR 0x27] @ ''os.path'' @ [CHR 0x27] @ '' not in globals():'',
        ''    import os.path'',
        ''else:'',
        ''    global os'',
        ''if '' @ [CHR 0x27] @ ''os.errno'' @ [CHR 0x27] @ '' not in globals():'',
        ''    import os.errno'']"
  using ensure_module_imported_idempotent
    [where b = "reset {''datetime''}" and ?m1.0 = "''os.path''" and ?m2.0 = "''os.errno''"
       and m = "''os.path''" and ms = "[]"]
  by (simp add: root_module_def reset_def added_lines_def ensure_module_imported_def Let_def
      with_indent_add_line add_line_def import_guard_line_def import_line_def global_line_def
      numeral_eq_Suc)

section \<open>Collected defaults\<close>










section \<open>Absent fields\<close>

text \<open>
  Claim C2 fails as stated. Which of the two shapes of a block is emitted depends on
  \<^verbatim>\<open>self.defaults[fname]\<close>, the default the builder collected for the name, and for a name
  the class annotates itself that is the entry of the class's own \<^verbatim>\<open>__dict__\<close>, or
  \<^verbatim>\<open>MISSING\<close> when there is none; the default of an ancestor is overwritten. The field \<^verbatim>\<open>x\<close>
  of \<^verbatim>\<open>Derived\<close> has the default 3, which the constructor supplies, and still
  \<^verbatim>\<open>Derived.from_dict({})\<close> raises \<^verbatim>\<open>MissingField\<close>.
\<close>

theorem missing_field_inherited_default_counterexample:
  "add_from_dict cls_Derived = Inr code_Derived
   \<and> init_fields cls_Derived = [dc_default ''x'' (PInt 3)]
   \<and> field_default (dc_default ''x'' (PInt 3)) = PInt 3
   \<and> map_of [] (PStr ''x'') = (None :: pyval option)
   \<and> dataclass_init (env P0) cls_Derived [] = Inr (PObj ''Derived'' [(''x'', PInt 3)])
   \<and> from_dict P0 cls_Derived code_Derived no_flags (PDict [])
       = Inl (MissingField ''x'' (TypeRef (TClass OInt)) ''Derived'')"
  by (simp add: add_from_dict_Derived cls_Derived_simps dc_default_def dataclass_init_def
      init_arg_def from_dict_def code_Derived_def from_dict_field_def dict_get
      is_AttributeError_def)

text \<open>
  Claim C2, amended. Let a field be absent from the input dict. If the builder has
  collected no default for its name (\<^verbatim>\<open>self.defaults[fname] is MISSING\<close>), the block of the
  field raises \<^verbatim>\<open>MissingField\<close> with the field name, its declared type (for a
  serialization strategy the class of the strategy object) and the class; so \<^verbatim>\<open>from_dict\<close>
  returns no instance, and it raises that error unless the block of an earlier field
  raises first. If the builder has collected a default or a factory, the block raises
  nothing and binds nothing, and in every instance \<^verbatim>\<open>from_dict\<close> returns the field holds
  what the constructor supplies for a missing argument (\<^verbatim>\<open>init_arg\<close> on no arguments: the
  default, or the value of the factory).
\<close>

theorem missing_field_by_collected_default:
  assumes "add_from_dict cls = Inr code"
    and "i < length code" and "field_types cls ! i = (fname, ftype)"
    and "map_of kvs (PStr fname) = None"
  shows "(defaults cls fname = Some PMissing \<longrightarrow>
            (\<forall>kwargs. from_dict_field P fl (cls_name cls) (PDict kvs) (code ! i) kwargs
                = Inl (MissingField fname (field_type_ref ftype) (cls_name cls)))
          \<and> (\<exists>e. from_dict P cls code fl (PDict kvs) = Inl e)
          \<and> (\<forall>kwargs. from_dict_fields P fl (cls_name cls) (PDict kvs) (take i code) [] = Inr kwargs
                \<longrightarrow> from_dict P cls code fl (PDict kvs)
                      = Inl (MissingField fname (field_type_ref ftype) (cls_name cls))))
       \<and> (defaults cls fname \<noteq> Some PMissing \<longrightarrow>
            (\<forall>kwargs. from_dict_field P fl (cls_name cls) (PDict kvs) (code ! i) kwargs = Inr kwargs)
          \<and> (\<forall>inst f v. from_dict P cls code fl (PDict kvs) = Inr inst
                \<and> f \<in> set (init_fields cls) \<and> field_name f = fname
                \<and> distinct (map field_name (init_fields cls))
                \<and> init_arg (env P) [] f = Inr (fname, v)
                \<longrightarrow> (\<exists>attrs. inst = PObj (cls_name cls) attrs \<and> map_of attrs fname = Some v)))"
proof -
  obtain dv ex where d: "defaults cls fname = Some dv"
    and c: "code ! i = \<lparr>fc_name = fname, fc_required = (dv = PMissing),
                          fc_type = field_type_ref ftype, fc_expr = ex\<rparr>"
    using add_from_dict_nth [OF assms(1,2,3)] by blast
  have split: "code = take i code @ code ! i # drop (Suc i) code"
    using assms(2) by (simp add: id_take_nth_drop)
  have required: "from_dict_field P fl (cls_name cls) (PDict kvs) (code ! i) kwargs
      = Inl (MissingField fname (field_type_ref ftype) (cls_name cls))"
    if "dv = PMissing" for kwargs
    using that assms(4) c by (simp add: from_dict_field_def dict_get)
  have optional: "from_dict_field P fl (cls_name cls) (PDict kvs) (code ! i) kwargs = Inr kwargs"
    if "dv \<noteq> PMissing" for kwargs
    using that assms(4) c by (simp add: from_dict_field_def dict_get)
  have reach: "from_dict P cls code fl (PDict kvs)
        = Inl (MissingField fname (field_type_ref ftype) (cls_name cls))"
    if "dv = PMissing"
      and "from_dict_fields P fl (cls_name cls) (PDict kvs) (take i code) [] = Inr kwargs"
    for kwargs
    using from_dict_fields_split [OF assms(2) that(2)] required [OF that(1)]
    by (simp add: from_dict_def is_AttributeError_def)
  have fails: "\<exists>e. from_dict P cls code fl (PDict kvs) = Inl e" if "dv = PMissing"
  proof (cases "from_dict_fields P fl (cls_name cls) (PDict kvs) (take i code) []")
    case (Inl e)
    then have "from_dict_fields P fl (cls_name cls) (PDict kvs) code [] = Inl e"
      by (subst split) (simp add: from_dict_fields_append)
    then show ?thesis by (simp add: from_dict_def)
  next
    case (Inr kwargs)
    then show ?thesis using reach [OF that] by simp
  qed
  have supplied: "\<exists>attrs. inst = PObj (cls_name cls) attrs \<and> map_of attrs fname = Some v"
    if "dv \<noteq> PMissing" and ok: "from_dict P cls code fl (PDict kvs) = Inr inst"
      and f: "f \<in> set (init_fields cls)" "field_name f = fname"
      and dist: "distinct (map field_name (init_fields cls))"
      and v: "init_arg (env P) [] f = Inr (fname, v)"
    for inst f v
  proof -
    from ok obtain kw where kw: "from_dict_fields P fl (cls_name cls) (PDict kvs) code [] = Inr kw"
        and init: "dataclass_init (env P) cls kw = Inr inst"
      by (auto simp: from_dict_def split: sum.splits if_splits)
    from kw obtain k1 where k1: "from_dict_fields P fl (cls_name cls) (PDict kvs) (take i code) [] = Inr k1"
      by (subst (asm) split) (auto simp: from_dict_fields_append split: sum.splits)
    have rest: "from_dict_fields P fl (cls_name cls) (PDict kvs) (drop (Suc i) code) k1 = Inr kw"
      using kw from_dict_fields_split [OF assms(2) k1] optional [OF that(1)] by simp
    have "distinct (map fc_name code)" using assms(1) by (rule add_from_dict_distinct)
    then have "distinct (map fc_name (take i code @ code ! i # drop (Suc i) code))"
      using split by simp
    then have "fname \<notin> fc_name ` set (take i code)" "fname \<notin> fc_name ` set (drop (Suc i) code)"
      using c by auto
    then have "map_of kw fname = map_of ([] :: (string \<times> pyval) list) fname"
      using from_dict_fields_other [OF rest] from_dict_fields_other [OF k1] by simp
    then have unbound: "map_of kw (field_name f) = None" using f(2) by simp
    obtain attrs where a: "inst = PObj (cls_name cls) attrs"
        "map_result (init_arg (env P) kw) (init_fields cls) = Inr attrs"
      using dataclass_init_Inr [OF init] by blast
    have "map_of attrs (field_name f) = Some v"
      using init_args_default [OF a(2) unbound f(1) dist] v f(2) by simp
    then show ?thesis using a(1) f(2) by blast
  qed
  show ?thesis
    using d required fails reach optional supplied by (intro conjI impI allI) (simp_all, blast+)
qed

text \<open>
  The theorem at \<^verbatim>\<open>Foo2.from_dict({"x1": 1})\<close> (the block of \<^verbatim>\<open>x1\<close> binds 1, then the
  required \<^verbatim>\<open>x2\<close> is absent) and at \<^verbatim>\<open>VariantStr12.from_dict({"x": "2023-05-30"})\<close> (the
  absent \<^verbatim>\<open>type\<close> gets its default).
\<close>

theorem missing_field_by_collected_default_witness:
  "add_from_dict cls_Foo2 = Inr code_Foo2
   \<and> field_types cls_Foo2 ! 1 = (''x2'', TClass OInt)
   \<and> map_of [(PStr ''x1'', PInt 1)] (PStr ''x2'') = None
   \<and> defaults cls_Foo2 ''x2'' = Some PMissing
   \<and> from_dict_fields P0 no_flags (cls_name cls_Foo2) (PDict [(PStr ''x1'', PInt 1)])
        (take 1 code_Foo2) [] = Inr [(''x1'', PInt 1)]
   \<and> from_dict P0 cls_Foo2 code_Foo2 no_flags (PDict [(PStr ''x1'', PInt 1)])
       = Inl (MissingField ''x2'' (TypeRef (TClass OInt)) ''Foo2'')
   \<and> add_from_dict cls_VariantStr12 = Inr code_VariantStr12
   \<and> field_types cls_VariantStr12 ! 1 = (''type'', TClass OStr)
   \<and> defaults cls_VariantStr12 ''type'' \<noteq> Some PMissing
   \<and> init_arg (env P0) [] (init_fields cls_VariantStr12 ! 1) = Inr (''type'', PStr ''str_12'')
   \<and> from_dict P0 cls_VariantStr12 code_VariantStr12 no_flags
        (PDict [(PStr ''x'', PStr ''2023-05-30'')])
       = Inr (PObj ''VariantStr12'' [(''x'', PStr ''2023-05-30''), (''type'', PStr ''str_12'')])"
proof -
  have a1: "add_from_dict cls_Foo2 = Inr code_Foo2" by (rule add_from_dict_Foo2)
  have a2: "(1::nat) < length code_Foo2" by (simp add: code_Foo2_def)
  have a3: "field_types cls_Foo2 ! 1 = (''x2'', TClass OInt)" by (simp add: field_types_Foo2)
  have a4: "map_of [(PStr ''x1'', PInt 1)] (PStr ''x2'') = None" by simp
  have a5: "from_dict_fields P0 no_flags (cls_name cls_Foo2) (PDict [(PStr ''x1'', PInt 1)])
        (take 1 code_Foo2) [] = Inr [(''x1'', PInt 1)]"
    by (simp add: code_Foo2_def from_dict_field_def dict_get try_unpack_def py_call_def
        py_int_def)
  have b1: "add_from_dict cls_VariantStr12 = Inr code_VariantStr12"
    by (rule add_from_dict_VariantStr12)
  have b2: "(1::nat) < length code_VariantStr12" by (simp add: code_VariantStr12_def)
  have b3: "field_types cls_VariantStr12 ! 1 = (''type'', TClass OStr)"
    by (simp add: field_types_VariantStr12)
  have b4: "map_of [(PStr ''x'', PStr ''2023-05-30'')] (PStr ''type'') = None" by simp
  have b5: "from_dict P0 cls_VariantStr12 code_VariantStr12 no_flags
        (PDict [(PStr ''x'', PStr ''2023-05-30'')])
       = Inr (PObj ''VariantStr12'' [(''x'', PStr ''2023-05-30''), (''type'', PStr ''str_12'')])"
    by (simp add: from_dict_def code_VariantStr12_def from_dict_field_def dict_get try_unpack_def
        cls_VariantStr12_simps dataclass_init_def init_arg_def)
  have b6: "init_arg (env P0) [] (init_fields cls_VariantStr12 ! 1) = Inr (''type'', PStr ''str_12'')"
    by (simp add: cls_VariantStr12_simps init_arg_def)
  show ?thesis
    using missing_field_by_collected_default [OF a1 a2 a3 a4, of P0 no_flags]
      missing_field_by_collected_default [OF b1 b2 b3 b4, of P0 no_flags]
      a1 a3 a4 a5 b1 b3 b5 b6
    by (simp add: defaults_Foo2 defaults_VariantStr12 field_type_ref_def cls_Foo2_simps)
qed
section \<open>Errors of decoding a field\<close>

text \<open>
  Claim C3 fails as stated, in two ways. The handler of a field's block is
  \<^verbatim>\<open>except Exception\<close>, so an exception that derives from \<^verbatim>\<open>BaseException\<close> only is not
  converted: when \<^verbatim>\<open>int(value)\<close> is interrupted from the keyboard,
  \<^verbatim>\<open>Foo2.from_dict({"x1": obj, "x2": 2})\<close> raises the \<^verbatim>\<open>KeyboardInterrupt\<close> itself. And the
  raise statement of the handler has no \<^verbatim>\<open>from e\<close>, so the original exception is not the
  cause of the raised one: for \<^verbatim>\<open>Foo2.from_dict({"x1": 1, "x2": []})\<close> the \<^verbatim>\<open>TypeError\<close> of
  \<^verbatim>\<open>int([])\<close> is the context of the \<^verbatim>\<open>InvalidFieldValue\<close>, whose cause is \<^verbatim>\<open>None\<close>.
\<close>

theorem invalid_field_value_interrupt_counterexample:
  "add_from_dict cls_Foo2 = Inr code_Foo2
   \<and> map_of [(PStr ''x1'', PObj ''Slow'' []), (PStr ''x2'', PInt 2)] (PStr ''x1'')
       = Some (PObj ''Slow'' [])
   \<and> evaluate P_interrupt no_flags [''value'' \<mapsto> PObj ''Slow'' []] (fc_expr (code_Foo2 ! 0))
       = Inl (BaseRaised ''KeyboardInterrupt'' [])
   \<and> from_dict P_interrupt cls_Foo2 code_Foo2 no_flags
        (PDict [(PStr ''x1'', PObj ''Slow'' []), (PStr ''x2'', PInt 2)])
       = Inl (BaseRaised ''KeyboardInterrupt'' [])
   \<and> evaluate P0 no_flags [''value'' \<mapsto> PList []] (fc_expr (code_Foo2 ! 1))
       = Inl (TypeError ''int() argument must be a string, a bytes-like object or a number'')
   \<and> from_dict P0 cls_Foo2 code_Foo2 no_flags
        (PDict [(PStr ''x1'', PInt 1), (PStr ''x2'', PList [])])
       = Inl (InvalidFieldValue ''x2'' (TypeRef (TClass OInt)) (PList []) ''Foo2'' None
               (Some (TypeError
                  ''int() argument must be a string, a bytes-like object or a number'')))"
  by (simp add: add_from_dict_Foo2 code_Foo2_def from_dict_def from_dict_field_def dict_get
      try_unpack_def py_call_def py_int_def env_interrupt_simps is_Exception_def
      is_AttributeError_def cls_Foo2_simps)

text \<open>
  Claim C3, amended. Let a field be present in the input with a value other than \<^verbatim>\<open>None\<close>
  (and other than the sentinel \<^verbatim>\<open>MISSING\<close>), and let the evaluation of its decode
  expression, the one \<^verbatim>\<open>_unpack_field_value\<close> compiled for it, raise an exception e. If e
  derives from \<^verbatim>\<open>Exception\<close>, the block of the field raises \<^verbatim>\<open>InvalidFieldValue\<close> with the
  field name, the expected type, the raw value and the class; the exception e is not
  discarded: it is the context of the raised one, whose cause is not set. Otherwise the
  block raises e itself. In both cases \<^verbatim>\<open>from_dict\<close> returns no instance, and it raises
  what the block raises unless the block of an earlier field raises first.
\<close>

theorem invalid_field_value_wraps:
  assumes "add_from_dict cls = Inr code"
    and "i < length code" and "field_types cls ! i = (fname, ftype)"
    and "map_of kvs (PStr fname) = Some value" and "value \<noteq> PNone" and "value \<noteq> PMissing"
    and "evaluate P fl [''value'' \<mapsto> value] (fc_expr (code ! i)) = Inl e"
  shows "unpack_field_value fname ftype (cls_name cls) ''value'' (metadatas cls fname)
           = Inr (fc_expr (code ! i))
       \<and> (\<forall>kwargs. from_dict_field P fl (cls_name cls) (PDict kvs) (code ! i) kwargs =
            Inl (if is_Exception e
                 then InvalidFieldValue fname (field_type_ref ftype) value (cls_name cls)
                        None (Some e)
                 else e))
       \<and> (\<exists>e'. from_dict P cls code fl (PDict kvs) = Inl e')
       \<and> (\<forall>kwargs. from_dict_fields P fl (cls_name cls) (PDict kvs) (take i code) [] = Inr kwargs
            \<longrightarrow> from_dict P cls code fl (PDict kvs) =
                  Inl (if is_Exception e
                       then InvalidFieldValue fname (field_type_ref ftype) value (cls_name cls)
                              None (Some e)
                       else e))"
proof -
  let ?r = "if is_Exception e
            then InvalidFieldValue fname (field_type_ref ftype) value (cls_name cls) None (Some e)
            else e"
  obtain dv ex where c: "defaults cls fname = Some dv"
      "unpack_field_value fname ftype (cls_name cls) ''value'' (metadatas cls fname) = Inr ex"
      "code ! i = \<lparr>fc_name = fname, fc_required = (dv = PMissing),
                          fc_type = field_type_ref ftype, fc_expr = ex\<rparr>"
    using add_from_dict_nth [OF assms(1,2,3)] by blast
  have block: "from_dict_field P fl (cls_name cls) (PDict kvs) (code ! i) kwargs = Inl ?r"
    for kwargs
    using assms(4,5,6,7) c(3) by (simp add: from_dict_field_def dict_get try_unpack_def)
  have not_attr: "\<not> is_AttributeError ?r"
    by (cases e) (simp_all add: is_AttributeError_def is_Exception_def)
  have reach: "from_dict P cls code fl (PDict kvs) = Inl ?r"
    if "from_dict_fields P fl (cls_name cls) (PDict kvs) (take i code) [] = Inr kwargs"
    for kwargs
  proof -
    have "from_dict_fields P fl (cls_name cls) (PDict kvs) code [] = Inl ?r"
      using from_dict_fields_split [OF assms(2) that] block by simp
    then show ?thesis
      using not_attr by (simp add: from_dict_def)
  qed
  have split: "code = take i code @ code ! i # drop (Suc i) code"
    using assms(2) by (simp add: id_take_nth_drop)
  have fails: "\<exists>e'. from_dict P cls code fl (PDict kvs) = Inl e'"
  proof (cases "from_dict_fields P fl (cls_name cls) (PDict kvs) (take i code) []")
    case (Inl e0)
    then have "from_dict_fields P fl (cls_name cls) (PDict kvs) code [] = Inl e0"
      by (subst split) (simp add: from_dict_fields_append)
    then show ?thesis by (simp add: from_dict_def)
  next
    case (Inr kwargs)
    then show ?thesis using reach by blast
  qed
  show ?thesis
    using c(2,3) block reach fails by simp
qed

text \<open>
  The theorem at \<^verbatim>\<open>Foo2.from_dict({"x1": 1, "x2": "two"})\<close>: \<^verbatim>\<open>int("two")\<close> raises
  \<^verbatim>\<open>ValueError\<close>, which comes back as the context of the error for the field \<^verbatim>\<open>x2\<close>.
\<close>

theorem invalid_field_value_wraps_witness:
  "add_from_dict cls_Foo2 = Inr code_Foo2
   \<and> field_types cls_Foo2 ! 1 = (''x2'', TClass OInt)
   \<and> map_of [(PStr ''x1'', PInt 1), (PStr ''x2'', PStr ''two'')] (PStr ''x2'')
       = Some (PStr ''two'')
   \<and> evaluate P0 no_flags [''value'' \<mapsto> PStr ''two''] (fc_expr (code_Foo2 ! 1))
       = Inl (ValueError ''invalid literal for int() with base 10'')
   \<and> is_Exception (ValueError ''invalid literal for int() with base 10'')
   \<and> from_dict_fields P0 no_flags (cls_name cls_Foo2)
        (PDict [(PStr ''x1'', PInt 1), (PStr ''x2'', PStr ''two'')]) (take 1 code_Foo2) []
       = Inr [(''x1'', PInt 1)]
   \<and> from_dict P0 cls_Foo2 code_Foo2 no_flags
        (PDict [(PStr ''x1'', PInt 1), (PStr ''x2'', PStr ''two'')]) =
       Inl (InvalidFieldValue ''x2'' (TypeRef (TClass OInt)) (PStr ''two'') ''Foo2'' None
              (Some (ValueError ''invalid literal for int() with base 10'')))"
proof -
  have 1: "add_from_dict cls_Foo2 = Inr code_Foo2" by (rule add_from_dict_Foo2)
  have 2: "(1::nat) < length code_Foo2" by (simp add: code_Foo2_def)
  have 3: "field_types cls_Foo2 ! 1 = (''x2'', TClass OInt)" by (simp add: field_types_Foo2)
  have 4: "from_dict_fields P0 no_flags (cls_name cls_Foo2)
        (PDict [(PStr ''x1'', PInt 1), (PStr ''x2'', PStr ''two'')]) (take 1 code_Foo2) []
       = Inr [(''x1'', PInt 1)]"
    by (simp add: code_Foo2_def from_dict_field_def dict_get try_unpack_def py_call_def
        py_int_def)
  have 5: "map_of [(PStr ''x1'', PInt 1), (PStr ''x2'', PStr ''two'')] (PStr ''x2'')
       = Some (PStr ''two'')"
    by simp
  have 6: "evaluate P0 no_flags [''value'' \<mapsto> PStr ''two''] (fc_expr (code_Foo2 ! 1))
       = Inl (ValueError ''invalid literal for int() with base 10'')"
    by (simp add: code_Foo2_def py_call_def py_int_def env0_simps parse_decimal_def
        is_digit_def)
  have 7: "is_Exception (ValueError ''invalid literal for int() with base 10'')"
    by (simp add: is_Exception_def)
  show ?thesis
    using invalid_field_value_wraps [OF 1 2 3 5 _ _ 6] 1 3 4 5 6 7
    by (simp add: field_type_ref_def cls_Foo2_simps)
qed
text \<open>
  Claim C4, amended. Let a field of the record type have one of the shapes the claim
  lists. Then both compilations fail: neither routine is ever installed, so the failure
  is at definition time and not at decode time. When the fields before it compile, the
  error raised is the one for this field (\<^verbatim>\<open>shape_error\<close>), for \<^verbatim>\<open>add_from_dict\<close> provided
  \<^verbatim>\<open>defaults\<close> knows the field. That error names the field, its type and the class exactly
  when the type is a bare container; for the other shapes it is the message alone.
\<close>

theorem unsupported_shape_raises_at_compile_time:
  assumes "i < length (field_types cls)" and "field_types cls ! i = (fname, ftype)"
    and "shape_error fname ftype (cls_name cls) = Some err"
  shows "(\<exists>e. add_to_dict cls = Inl e) \<and> (\<exists>e. add_from_dict cls = Inl e)
       \<and> (\<forall>pre. map_result (add_to_dict_field cls) (take i (field_types cls)) = Inr pre
             \<longrightarrow> add_to_dict cls = Inl err)
       \<and> (\<forall>pre dv. map_result (add_from_dict_field cls) (take i (field_types cls)) = Inr pre
             \<and> defaults cls fname = Some dv
             \<longrightarrow> add_from_dict cls = Inl err)
       \<and> (names_field err fname ftype (cls_name cls) \<longleftrightarrow> (\<exists>b. ftype = TBare b))"
proof -
  have mem: "(fname, ftype) \<in> set (field_types cls)"
    using assms(1,2) by (metis nth_mem)
  have p: "add_to_dict_field cls (fname, ftype) = Inl err"
    using shape_error_pack [OF assms(3)] by (simp add: add_to_dict_field_def)
  have u: "\<exists>e. add_from_dict_field cls (fname, ftype) = Inl e"
    using shape_error_unpack [OF assms(3)]
    by (simp add: add_from_dict_field_def split: option.splits)
  have u': "defaults cls fname = Some dv \<Longrightarrow> add_from_dict_field cls (fname, ftype) = Inl err" for dv
    using shape_error_unpack [OF assms(3)] by (simp add: add_from_dict_field_def)
  have 1: "\<exists>e. add_to_dict cls = Inl e"
    unfolding add_to_dict_def
    using map_result_Inl_mem [where f = "add_to_dict_field cls", OF mem p] .
  have 2: "\<exists>e. add_from_dict cls = Inl e"
    unfolding add_from_dict_def
    using u map_result_Inl_mem [where f = "add_from_dict_field cls", OF mem] by blast
  have 3: "add_to_dict cls = Inl err"
    if "map_result (add_to_dict_field cls) (take i (field_types cls)) = Inr pre" for pre
    unfolding add_to_dict_def
    using map_result_first_error [OF assms(1) that] p assms(2) by simp
  have 4: "add_from_dict cls = Inl err"
    if "map_result (add_from_dict_field cls) (take i (field_types cls)) = Inr pre"
      and "defaults cls fname = Some dv" for pre dv
    unfolding add_from_dict_def
    using map_result_first_error [OF assms(1) that(1)] u' [OF that(2)] assms(2) by simp
  have 5: "names_field err fname ftype (cls_name cls) \<longleftrightarrow> (\<exists>b. ftype = TBare b)"
    using assms(3)
    by (cases ftype)
      (auto simp: shape_error_def names_field_def typevars_msg_def anystr_msg_def unions_msg_def
        split: if_splits)
  show ?thesis using 1 2 3 4 5 by blast
qed

section \<open>Unsupported shapes fail at compile time\<close>

text \<open>
  Claim C4 fails as stated: for a type variable (as for \<^verbatim>\<open>AnyStr\<close> and a union that is
  not \<^verbatim>\<open>Optional\<close>) both compilations raise \<^verbatim>\<open>UnserializableDataError\<close> with a message only;
  the error names neither the field nor its type nor the class.
\<close>

theorem unsupported_shape_counterexample:
  "field_types cls_Box = [(''x'', TTypeVar ''T'')]
   \<and> add_to_dict cls_Box
       = Inl (UnserializableDataError (Text ''TypeVars are not supported by mashumaro''))
   \<and> add_from_dict cls_Box
       = Inl (UnserializableDataError (Text ''TypeVars are not supported by mashumaro''))
   \<and> \<not> names_field (UnserializableDataError (Text ''TypeVars are not supported by mashumaro''))
          ''x'' (TTypeVar ''T'') (cls_name cls_Box)"
  by (simp add: field_types_Box add_to_dict_def add_to_dict_field_def add_from_dict_def
      add_from_dict_field_def defaults_Box names_field_def)

text \<open>The theorem at the field \<^verbatim>\<open>items: list\<close> of \<^verbatim>\<open>Bag\<close>.\<close>

theorem unsupported_shape_raises_at_compile_time_witness:
  "field_types cls_Bag ! 1 = (''items'', TBare BList)
   \<and> shape_error ''items'' (TBare BList) (cls_name cls_Bag)
       = Some (UnserializableField ''items'' (TBare BList) ''Bag''
                 (Some (Text ''Use typing.List[T] instead'')))
   \<and> map_result (add_to_dict_field cls_Bag) (take 1 (field_types cls_Bag))
       = Inr [(''n'', Call ''int'' [Var ''value''])]
   \<and> add_to_dict cls_Bag
       = Inl (UnserializableField ''items'' (TBare BList) ''Bag''
                (Some (Text ''Use typing.List[T] instead'')))
   \<and> map_result (add_from_dict_field cls_Bag) (take 1 (field_types cls_Bag))
       = Inr [\<lparr>fc_name = ''n'', fc_required = True, fc_type = TypeRef (TClass OInt),
               fc_expr = Call ''int'' [Var ''value'']\<rparr>]
   \<and> defaults cls_Bag ''items'' = Some PMissing
   \<and> add_from_dict cls_Bag
       = Inl (UnserializableField ''items'' (TBare BList) ''Bag''
                (Some (Text ''Use typing.List[T] instead'')))
   \<and> names_field (UnserializableField ''items'' (TBare BList) ''Bag''
                (Some (Text ''Use typing.List[T] instead''))) ''items'' (TBare BList) ''Bag''"
proof -
  have 1: "1 < length (field_types cls_Bag)" by (simp add: field_types_Bag)
  have 2: "field_types cls_Bag ! 1 = (''items'', TBare BList)" by (simp add: field_types_Bag)
  have 3: "shape_error ''items'' (TBare BList) (cls_name cls_Bag)
       = Some (UnserializableField ''items'' (TBare BList) ''Bag''
                 (Some (Text ''Use typing.List[T] instead'')))"
    by (simp add: shape_error_def bare_hint_def cls_names)
  have 4: "map_result (add_to_dict_field cls_Bag) (take 1 (field_types cls_Bag))
       = Inr [(''n'', Call ''int'' [Var ''value''])]"
    by (simp add: field_types_Bag add_to_dict_field_def pack_by_origin_def)
  have 5: "map_result (add_from_dict_field cls_Bag) (take 1 (field_types cls_Bag))
       = Inr [\<lparr>fc_name = ''n'', fc_required = True, fc_type = TypeRef (TClass OInt),
               fc_expr = Call ''int'' [Var ''value'']\<rparr>]"
    by (simp add: field_types_Bag add_from_dict_field_def defaults_Bag metadatas_Bag
        unpack_by_origin_def field_type_ref_def)
  show ?thesis
    using unsupported_shape_raises_at_compile_time [OF 1 2 3] 2 3 4 5
    by (simp add: defaults_Bag names_field_def)
qed

section \<open>An input that is not a dict\<close>

text \<open>
  Claim C5 fails as stated. The routine does not test its argument: it relies on
  \<^verbatim>\<open>d.get\<close> raising \<^verbatim>\<open>AttributeError\<close>. A class with no field emits no block, so nothing is
  looked up in \<^verbatim>\<open>d\<close>: \<^verbatim>\<open>BaseVariant.from_dict(42)\<close> returns an instance.
\<close>

theorem from_dict_not_a_dict_counterexample:
  "add_from_dict cls_BaseVariant = Inr []
   \<and> \<not> is_dict (PInt 42)
   \<and> from_dict P0 cls_BaseVariant [] no_flags (PInt 42) = Inr (PObj ''BaseVariant'' [])"
  by (simp add: add_from_dict_def field_types_def get_field_types_def cls_BaseVariant_def
      is_dict_def from_dict_def dataclass_init_def)

text \<open>
  Claim C5, amended. For a record type with at least one field: if the input is not a
  dict and has no attribute \<^verbatim>\<open>get\<close> (the lookup of the first field raises
  \<^verbatim>\<open>AttributeError\<close>), \<^verbatim>\<open>from_dict\<close> raises \<^verbatim>\<open>ValueError\<close> with the message naming the
  class, and returns no instance. That is so for every built-in value that is not a
  dict: \<^verbatim>\<open>None\<close>, a boolean, an integer, a string, a list, a tuple.
\<close>

theorem from_dict_not_a_dict:
  assumes "add_from_dict cls = Inr code" and "field_types cls = (fname, ftype) # rest"
  shows "(lacks_get P d fname \<and> \<not> is_dict d \<longrightarrow>
            from_dict P cls code fl d = Inl (ValueError (not_a_dict_message (cls_name cls))))
       \<and> (\<not> is_dict d \<and> \<not> is_object d \<longrightarrow>
            from_dict P cls code fl d = Inl (ValueError (not_a_dict_message (cls_name cls))))"
proof -
  have "length code = length (field_types cls)"
    using assms(1) by (simp add: add_from_dict_def map_result_Inr_length)
  then have len: "0 < length code"
    using assms(2) by simp
  have ft: "field_types cls ! 0 = (fname, ftype)" using assms(2) by simp
  obtain dv ex where c: "code ! 0 = \<lparr>fc_name = fname, fc_required = (dv = PMissing),
                          fc_type = field_type_ref ftype, fc_expr = ex\<rparr>"
    using add_from_dict_nth [OF assms(1) len ft] by blast
  obtain fc fcs where code: "code = fc # fcs" using len by (cases code) auto
  then have fc: "fc_name fc = fname" using c by simp
  have main: "from_dict P cls code fl d = Inl (ValueError (not_a_dict_message (cls_name cls)))"
    if "lacks_get P d fname" and "\<not> is_dict d"
    using that code fc
    by (auto simp: lacks_get_def from_dict_def from_dict_field_def split: sum.splits)
  have "lacks_get P d fname" if "\<not> is_dict d" and "\<not> is_object d"
    using that
    by (cases d) (simp_all add: lacks_get_def py_method_def is_dict_def is_object_def
        is_AttributeError_def)
  then show ?thesis using main by blast
qed

text \<open>
  The theorem at \<^verbatim>\<open>Foo2.from_dict(object())\<close> and \<^verbatim>\<open>Foo2.from_dict([1])\<close>.
\<close>

theorem from_dict_not_a_dict_witness:
  "add_from_dict cls_Foo2 = Inr code_Foo2
   \<and> field_types cls_Foo2 = (''x1'', TClass OInt) # [(''x2'', TClass OInt)]
   \<and> lacks_get P0 (PObj ''object'' []) ''x1'' \<and> \<not> is_dict (PObj ''object'' [])
   \<and> from_dict P0 cls_Foo2 code_Foo2 no_flags (PObj ''object'' [])
       = Inl (ValueError ''Argument for Foo2.from_dict method should be a dict instance'')
   \<and> \<not> is_dict (PList [PInt 1]) \<and> \<not> is_object (PList [PInt 1])
   \<and> from_dict P0 cls_Foo2 code_Foo2 no_flags (PList [PInt 1])
       = Inl (ValueError ''Argument for Foo2.from_dict method should be a dict instance'')"
  using from_dict_not_a_dict [OF add_from_dict_Foo2, of "''x1''" "TClass OInt"
      "[(''x2'', TClass OInt)]" P0 "PObj ''object'' []" no_flags]
    from_dict_not_a_dict [OF add_from_dict_Foo2, of "''x1''" "TClass OInt"
      "[(''x2'', TClass OInt)]" P0 "PList [PInt 1]" no_flags]
  by (simp add: add_from_dict_Foo2 field_types_Foo2 lacks_get_def py_method_def env0_simps
      is_AttributeError_def is_dict_def is_object_def not_a_dict_message_def cls_Foo2_simps)

section \<open>Dispatch by tag\<close>

text \<open>
  Claim C6 (on the model of the Discriminator Resolver written from the specification).
  In tag mode the raw value of the tag field is read from the input. If exactly one
  candidate has that tag value (its literal tag, or the result of the custom tagger), the
  result of decoding is the result of that candidate's own decode routine, whether it
  succeeds or fails: no other candidate is tried. If no candidate has that tag value,
  decoding raises \<^verbatim>\<open>InvalidFieldValue\<close> for the discriminated field.
\<close>

theorem tag_dispatch:
  assumes "read_tag tag input = Some raw"
  shows "(v \<in> set (tag_candidates D h) \<and> tag_value D v = Some raw
          \<and> (\<forall>w \<in> set (tag_candidates D h). tag_value D w = Some raw \<longrightarrow> w = v)
          \<longrightarrow> decode_by_tag tag D h fname ftype cls input = variant_decode v input)
       \<and> ((\<forall>w \<in> set (tag_candidates D h). tag_value D w \<noteq> Some raw)
          \<longrightarrow> decode_by_tag tag D h fname ftype cls input
                = Inl (InvalidFieldValue fname ftype input cls None (Some unknown_tag)))"
proof (intro conjI impI)
  assume a: "v \<in> set (tag_candidates D h) \<and> tag_value D v = Some raw
          \<and> (\<forall>w \<in> set (tag_candidates D h). tag_value D w = Some raw \<longrightarrow> w = v)"
  have mem: "(raw, v) \<in> set (tag_map D h)"
    unfolding tag_map_set using a by blast
  have uniq: "v' = v" if "(raw, v') \<in> set (tag_map D h)" for v'
    using that a unfolding tag_map_set by blast
  have "map_of (tag_map D h) raw = Some v"
    using mem uniq by (rule map_of_unique)
  then show "decode_by_tag tag D h fname ftype cls input = variant_decode v input"
    using assms by (simp add: decode_by_tag_def)
next
  assume n: "\<forall>w \<in> set (tag_candidates D h). tag_value D w \<noteq> Some raw"
  have "raw \<notin> fst ` set (tag_map D h)"
    unfolding tag_map_set using n by force
  then have "map_of (tag_map D h) raw = None"
    by (simp add: map_of_eq_None_iff)
  then show "decode_by_tag tag D h fname ftype cls input
                = Inl (InvalidFieldValue fname ftype input cls None (Some unknown_tag))"
    using assms by (simp add: decode_by_tag_def)
qed

text \<open>
  The theorem at the inputs of the test: \<^verbatim>\<open>{"type": "variantwitcustomtaggersub1"}\<close> decodes
  to an instance of \<^verbatim>\<open>VariantWitCustomTaggerSub1\<close>, and \<^verbatim>\<open>{"type": "unknown"}\<close> raises.
\<close>

theorem tag_dispatch_witness:
  "read_tag ''type'' (PDict [(PStr ''type'', PStr ''variantwitcustomtaggersub1'')])
     = Some (PStr ''variantwitcustomtaggersub1'')
   \<and> tag_candidates tagger_discriminator tagger_hierarchy
       = [variant_of cls_Sub1, variant_of cls_Sub2]
   \<and> tag_value tagger_discriminator (variant_of cls_Sub1)
       = Some (PStr ''variantwitcustomtaggersub1'')
   \<and> tag_value tagger_discriminator (variant_of cls_Sub2)
       = Some (PStr ''variantwitcustomtaggersub2'')
   \<and> decode_by_tag ''type'' tagger_discriminator tagger_hierarchy ''x''
        (TypeRef (TDataclass ''BaseVariantWitCustomTagger'')) ''VariantWitCustomTaggerOwner''
        (PDict [(PStr ''type'', PStr ''variantwitcustomtaggersub1'')])
       = Inr (PObj ''VariantWitCustomTaggerSub1'' [])
   \<and> decode_by_tag ''type'' tagger_discriminator tagger_hierarchy ''x''
        (TypeRef (TDataclass ''BaseVariantWitCustomTagger'')) ''VariantWitCustomTaggerOwner''
        (PDict [(PStr ''type'', PStr ''unknown'')])
       = Inl (InvalidFieldValue ''x'' (TypeRef (TDataclass ''BaseVariantWitCustomTagger''))
                (PDict [(PStr ''type'', PStr ''unknown'')]) ''VariantWitCustomTaggerOwner''
                None (Some unknown_tag))"
proof -
  let ?d1 = "PDict [(PStr ''type'', PStr ''variantwitcustomtaggersub1'')]"
  let ?d2 = "PDict [(PStr ''type'', PStr ''unknown'')]"
  have r1: "read_tag ''type'' ?d1 = Some (PStr ''variantwitcustomtaggersub1'')"
    by (simp add: read_tag_def)
  have r2: "read_tag ''type'' ?d2 = Some (PStr ''unknown'')"
    by (simp add: read_tag_def)
  have c: "tag_candidates tagger_discriminator tagger_hierarchy
       = [variant_of cls_Sub1, variant_of cls_Sub2]"
    by (simp add: tag_candidates_def tagger_discriminator_def tagger_hierarchy_def)
  have t: "tag_value tagger_discriminator (variant_of cls_Sub1)
       = Some (PStr ''variantwitcustomtaggersub1'')"
    "tag_value tagger_discriminator (variant_of cls_Sub2)
       = Some (PStr ''variantwitcustomtaggersub2'')"
    by (simp_all add: tag_value_def tagger_discriminator_def variant_of_def cls_Sub1_def
        cls_Sub2_def lower_examples)
  have d: "variant_decode (variant_of cls_Sub1) ?d1 = Inr (PObj ''VariantWitCustomTaggerSub1'' [])"
    by (simp add: variant_of_def from_dict_def dataclass_init_def cls_Sub1_def)
  show ?thesis
    using tag_dispatch [OF r1, of "variant_of cls_Sub1" tagger_discriminator tagger_hierarchy
        "''x''" "TypeRef (TDataclass ''BaseVariantWitCustomTagger'')"
        "''VariantWitCustomTaggerOwner''"]
      tag_dispatch [OF r2, of "variant_of cls_Sub1" tagger_discriminator tagger_hierarchy
        "''x''" "TypeRef (TDataclass ''BaseVariantWitCustomTagger'')"
        "''VariantWitCustomTaggerOwner''"]
      r1 c t d
    by simp
qed

section \<open>A null value binds None\<close>

text \<open>
  Claim C9. When the input maps the key of a field to \<^verbatim>\<open>None\<close>, the block of that field
  stores \<^verbatim>\<open>None\<close> under the field name and raises nothing, whatever the type of the
  field, its default and its decode expression (the expression is not evaluated: the
  result does not depend on it, nor on the parameters of the run). And every instance
  \<^verbatim>\<open>from_dict\<close> returns for such an input has \<^verbatim>\<open>None\<close> in that field.
\<close>

theorem null_binds_none:
  assumes "add_from_dict cls = Inr code"
    and "i < length code" and "field_types cls ! i = (fname, ftype)"
    and "map_of kvs (PStr fname) = Some PNone"
  shows "(\<forall>kwargs. from_dict_field P fl (cls_name cls) (PDict kvs) (code ! i) kwargs
                     = Inr (AList.update fname PNone kwargs))
       \<and> (\<forall>inst. from_dict P cls code fl (PDict kvs) = Inr inst \<longrightarrow>
             (\<exists>attrs. inst = PObj (cls_name cls) attrs \<and> map_of attrs fname = Some PNone))"
proof (intro conjI allI impI)
  obtain dv ex where c: "code ! i = \<lparr>fc_name = fname, fc_required = (dv = PMissing),
                          fc_type = field_type_ref ftype, fc_expr = ex\<rparr>"
    using add_from_dict_nth [OF assms(1,2,3)] by blast
  show step: "from_dict_field P fl (cls_name cls) (PDict kvs) (code ! i) kwargs
         = Inr (AList.update fname PNone kwargs)" for kwargs
    using assms(4) c by (simp add: from_dict_field_def dict_get)
  fix inst assume ok: "from_dict P cls code fl (PDict kvs) = Inr inst"
  then obtain kw where kw: "from_dict_fields P fl (cls_name cls) (PDict kvs) code [] = Inr kw"
      and init: "dataclass_init (env P) cls kw = Inr inst"
    by (auto simp: from_dict_def split: sum.splits if_splits)
  have split: "code = take i code @ code ! i # drop (Suc i) code"
    using assms(2) by (simp add: id_take_nth_drop)
  from kw obtain k1 where k1: "from_dict_fields P fl (cls_name cls) (PDict kvs) (take i code) [] = Inr k1"
    by (subst (asm) split) (auto simp: from_dict_fields_append split: sum.splits)
  have rest: "from_dict_fields P fl (cls_name cls) (PDict kvs) (drop (Suc i) code)
                (AList.update fname PNone k1) = Inr kw"
    using kw from_dict_fields_split [OF assms(2) k1] step by simp
  have "distinct (map fc_name code)" using assms(1) by (rule add_from_dict_distinct)
  then have "distinct (map fc_name (take i code @ code ! i # drop (Suc i) code))"
    using split by simp
  then have "fname \<notin> fc_name ` set (drop (Suc i) code)"
    using c by auto
  then have "map_of kw fname = map_of (AList.update fname PNone k1) fname"
    using from_dict_fields_other [OF rest] by simp
  then have bound: "map_of kw fname = Some PNone" by (simp add: update_conv')
  obtain attrs where a: "inst = PObj (cls_name cls) attrs"
      "map_result (init_arg (env P) kw) (init_fields cls) = Inr attrs"
      "fst ` set kw \<subseteq> field_name ` set (init_fields cls)"
    using dataclass_init_Inr [OF init] by blast
  have "fname \<in> fst ` set kw" using bound by (force dest: map_of_SomeD)
  then have "fname \<in> field_name ` set (init_fields cls)" using a(3) by blast
  then have "map_of attrs fname = Some PNone" using init_args_lookup [OF a(2) bound] by simp
  then show "\<exists>attrs. inst = PObj (cls_name cls) attrs \<and> map_of attrs fname = Some PNone"
    using a(1) by blast
qed

text \<open>
  The theorem at \<^verbatim>\<open>Foo2.from_dict({"x1": 1, "x2": None})\<close>, where \<^verbatim>\<open>x2\<close> is an \<^verbatim>\<open>int\<close>.
\<close>

theorem null_binds_none_witness:
  "add_from_dict cls_Foo2 = Inr code_Foo2
   \<and> field_types cls_Foo2 ! 1 = (''x2'', TClass OInt)
   \<and> map_of [(PStr ''x1'', PInt 1), (PStr ''x2'', PNone)] (PStr ''x2'') = Some PNone
   \<and> from_dict_field P0 no_flags (cls_name cls_Foo2)
        (PDict [(PStr ''x1'', PInt 1), (PStr ''x2'', PNone)]) (code_Foo2 ! 1) [(''x1'', PInt 1)]
       = Inr [(''x1'', PInt 1), (''x2'', PNone)]
   \<and> from_dict P0 cls_Foo2 code_Foo2 no_flags
        (PDict [(PStr ''x1'', PInt 1), (PStr ''x2'', PNone)])
       = Inr (PObj ''Foo2'' [(''x1'', PInt 1), (''x2'', PNone)])"
proof -
  have 1: "add_from_dict cls_Foo2 = Inr code_Foo2" by (rule add_from_dict_Foo2)
  have 2: "(1::nat) < length code_Foo2" by (simp add: code_Foo2_def)
  have 3: "field_types cls_Foo2 ! 1 = (''x2'', TClass OInt)" by (simp add: field_types_Foo2)
  have 4: "map_of [(PStr ''x1'', PInt 1), (PStr ''x2'', PNone)] (PStr ''x2'') = Some PNone"
    by simp
  have 5: "from_dict P0 cls_Foo2 code_Foo2 no_flags
        (PDict [(PStr ''x1'', PInt 1), (PStr ''x2'', PNone)])
       = Inr (PObj ''Foo2'' [(''x1'', PInt 1), (''x2'', PNone)])"
    by (simp add: from_dict_def code_Foo2_def from_dict_field_def dict_get try_unpack_def
      py_call_def py_int_def env0_simps cls_Foo2_simps dataclass_init_def init_arg_def dc_required_def)
  show ?thesis
    using null_binds_none [OF 1 2 3 4, of P0 no_flags] 1 3 5 by simp
qed

end
